theory Spec2Isabelle
  imports Main "HOL-Library.AList" "HOL-Library.Char_ord" "HOL-Library.List_Lexorder"
begin

section \<open>Python values\<close>

text \<open>
  The values that reach the memory layer: \<open>None\<close>, a \<open>str\<close>, or a \<open>dict\<close> with string
  keys. A dict is an association list in insertion order, as Python keeps it.
\<close>

datatype pyval = PNone | PStr string | PDict "(string \<times> pyval) list"

datatype error =
    ValueError string
  | AttributeError
  | KeyError string
  | DataError
  | ResponseError
  | ConnectionError
  | JSONDecodeError
  | TypeError

fun truthy :: "pyval \<Rightarrow> bool" where
  "truthy PNone = False"
| "truthy (PStr s) = (s \<noteq> [])"
| "truthy (PDict d) = (d \<noteq> [])"

definition py_or :: "pyval \<Rightarrow> pyval \<Rightarrow> pyval" where
  "py_or a b = (if truthy a then a else b)"

definition is_dict :: "pyval \<Rightarrow> bool" where
  "is_dict v = (case v of PDict d \<Rightarrow> True | _ \<Rightarrow> False)"

text \<open>\<open>d.get(k)\<close> and \<open>d.get(k, default)\<close> on a dict.\<close>

definition dict_get_default :: "(string \<times> pyval) list \<Rightarrow> string \<Rightarrow> pyval \<Rightarrow> pyval" where
  "dict_get_default d k dflt = (case map_of d k of None \<Rightarrow> dflt | Some v \<Rightarrow> v)"

definition dict_get :: "(string \<times> pyval) list \<Rightarrow> string \<Rightarrow> pyval" where
  "dict_get d k = dict_get_default d k PNone"

text \<open>\<open>v.get(k)\<close> on an arbitrary value: only a dict has the attribute.\<close>

definition attr_get :: "pyval \<Rightarrow> string \<Rightarrow> error + pyval" where
  "attr_get v k = (case v of PDict d \<Rightarrow> Inr (dict_get d k) | _ \<Rightarrow> Inl AttributeError)"

text \<open>
  \<open>{**a, **b}\<close>: the keys of \<open>b\<close> are written into \<open>a\<close> from left to right; a key already
  present keeps its position and takes the new value.
\<close>

definition alist_merge :: "('k \<times> 'v) list \<Rightarrow> ('k \<times> 'v) list \<Rightarrow> ('k \<times> 'v) list" where
  "alist_merge a b = fold (\<lambda>kv. AList.update (fst kv) (snd kv)) b a"

definition intercalate :: "string \<Rightarrow> string list \<Rightarrow> string" where
  "intercalate sep xs = (case xs of [] \<Rightarrow> [] | y # ys \<Rightarrow> y @ concat (map (\<lambda>z. sep @ z) ys))"

text \<open>
  \<open>str(v)\<close> as an f-string renders it, and \<open>json.dumps(v)\<close>. Both are written for text
  without characters that need escaping.
\<close>

fun py_repr :: "pyval \<Rightarrow> string" where
  "py_repr PNone = ''None''"
| "py_repr (PStr s) = [CHR 0x27] @ s @ [CHR 0x27]"
| "py_repr (PDict d) =
     ''{'' @ intercalate '', '' (map (\<lambda>kv. [CHR 0x27] @ fst kv @ [CHR 0x27] @ '': '' @ py_repr (snd kv)) d) @ ''}''"

definition py_str :: "pyval \<Rightarrow> string" where
  "py_str v = (case v of PStr s \<Rightarrow> s | _ \<Rightarrow> py_repr v)"

fun json_dumps :: "pyval \<Rightarrow> string" where
  "json_dumps PNone = ''null''"
| "json_dumps (PStr s) = [CHR 0x22] @ s @ [CHR 0x22]"
| "json_dumps (PDict d) =
     ''{'' @ intercalate '', '' (map (\<lambda>kv. [CHR 0x22] @ fst kv @ [CHR 0x22] @ '': '' @ json_dumps (snd kv)) d) @ ''}''"

text \<open>
  Python's \<open>sorted(xs, key=f, reverse=True)\<close>: descending, and stable (equal keys keep
  their original order).
\<close>

definition sorted_reverse :: "('a \<Rightarrow> 'k::linorder) \<Rightarrow> 'a list \<Rightarrow> 'a list" where
  "sorted_reverse f xs = rev (sort_key f (rev xs))"

text \<open>Python slices \<open>xs[-n:]\<close> and \<open>xs[:n]\<close> for an int \<open>n\<close>.\<close>

definition slice_last :: "'a list \<Rightarrow> int \<Rightarrow> 'a list" where
  "slice_last xs n =
     (if n \<le> 0 then (if n = 0 then xs else drop (nat (- n)) xs)
      else drop (length xs - nat n) xs)"

definition slice_first :: "'a list \<Rightarrow> int \<Rightarrow> 'a list" where
  "slice_first xs n = (if 0 \<le> n then take (nat n) xs else take (length xs - nat (- n)) xs)"

section \<open>Timestamps\<close>

text \<open>
  A naive \<open>datetime\<close> and the text \<open>isoformat()\<close> gives it:
  \<open>YYYY-MM-DDTHH:MM:SS.ffffff\<close>, without the fraction when the microsecond is zero.
\<close>

record datetime =
  year :: nat
  month :: nat
  day :: nat
  hour :: nat
  minute :: nat
  second :: nat
  microsecond :: nat

definition digit :: "nat \<Rightarrow> char" where
  "digit n = char_of (48 + n)"

definition pad2 :: "nat \<Rightarrow> string" where
  "pad2 n = [digit (n div 10 mod 10), digit (n mod 10)]"

definition pad4 :: "nat \<Rightarrow> string" where
  "pad4 n = pad2 (n div 100) @ pad2 n"

definition pad6 :: "nat \<Rightarrow> string" where
  "pad6 n = pad2 (n div 10000) @ pad4 n"

definition isoformat :: "datetime \<Rightarrow> string" where
  "isoformat d =
     pad4 (year d) @ ''-'' @ pad2 (month d) @ ''-'' @ pad2 (day d) @ ''T''
     @ pad2 (hour d) @ '':'' @ pad2 (minute d) @ '':'' @ pad2 (second d)
     @ (if microsecond d = 0 then [] else ''.'' @ pad6 (microsecond d))"

definition digit_val :: "char \<Rightarrow> nat option" where
  "digit_val c =
     (let n = (of_char c :: nat) in if 48 \<le> n \<and> n \<le> 57 then Some (n - 48) else None)"

fun digits_val :: "nat \<Rightarrow> string \<Rightarrow> nat option" where
  "digits_val acc [] = Some acc"
| "digits_val acc (c # cs) =
     (case digit_val c of None \<Rightarrow> None | Some n \<Rightarrow> digits_val (acc * 10 + n) cs)"

definition is_leap :: "nat \<Rightarrow> bool" where
  "is_leap y = (y mod 4 = 0 \<and> (y mod 100 \<noteq> 0 \<or> y mod 400 = 0))"

definition days_in_month :: "nat \<Rightarrow> nat \<Rightarrow> nat" where
  "days_in_month y m =
     (if m = 2 then (if is_leap y then 29 else 28)
      else if m = 4 \<or> m = 6 \<or> m = 9 \<or> m = 11 then 30 else 31)"

definition valid_datetime :: "datetime \<Rightarrow> bool" where
  "valid_datetime d =
     (1 \<le> year d \<and> year d \<le> 9999 \<and> 1 \<le> month d \<and> month d \<le> 12
      \<and> 1 \<le> day d \<and> day d \<le> days_in_month (year d) (month d)
      \<and> hour d < 24 \<and> minute d < 60 \<and> second d < 60 \<and> microsecond d < 1000000)"

text \<open>
  \<open>datetime.fromisoformat\<close>, restricted to the two layouts \<open>isoformat()\<close> writes, which are
  the texts this code stores under \<open>created_at\<close>: on them the function is the inverse of
  \<open>isoformat\<close>. A \<open>ValueError\<close> is \<open>None\<close>. Python reads further layouts (a date alone, a
  space for the \<open>T\<close>, an offset); the model answers \<open>None\<close> on those as well, and is
  applied below only to texts \<open>isoformat()\<close> wrote.
\<close>

definition fromisoformat :: "string \<Rightarrow> datetime option" where
  "fromisoformat s =
     (if (length s = 19 \<or> length s = 26)
         \<and> s ! 4 = CHR ''-'' \<and> s ! 7 = CHR ''-'' \<and> s ! 10 = CHR ''T''
         \<and> s ! 13 = CHR '':'' \<and> s ! 16 = CHR '':''
         \<and> (length s = 19 \<or> s ! 19 = CHR ''.'')
      then
        (case (digits_val 0 (take 4 s), digits_val 0 (take 2 (drop 5 s)),
               digits_val 0 (take 2 (drop 8 s)), digits_val 0 (take 2 (drop 11 s)),
               digits_val 0 (take 2 (drop 14 s)), digits_val 0 (take 2 (drop 17 s)),
               digits_val 0 (drop 20 s)) of
           (Some y, Some mo, Some d, Some h, Some mi, Some se, Some us) \<Rightarrow>
             (let dt = \<lparr>year = y, month = mo, day = d, hour = h, minute = mi,
                        second = se, microsecond = us\<rparr>
              in if valid_datetime dt then Some dt else None)
         | _ \<Rightarrow> None)
      else None)"

text \<open>Naive datetimes compare field by field; the key is that order as one number.\<close>

definition dt_key :: "datetime \<Rightarrow> nat" where
  "dt_key d =
     (((((year d * 13 + month d) * 32 + day d) * 24 + hour d) * 60 + minute d) * 60 + second d)
       * 1000000 + microsecond d"

section \<open>The two stores and their clients\<close>

text \<open>
  Text held by Redis. \<open>Json v\<close> is the text \<open>json.dumps\<close> writes for \<open>v\<close>, kept
  with the value it denotes, so that \<open>json.loads\<close> of it is \<open>v\<close>; \<open>Txt s\<close> is any
  other text, and \<open>json.loads\<close> of it is a decode error.
\<close>

datatype rtext = Txt string | Json pyval

definition text_of :: "rtext \<Rightarrow> string" where
  "text_of t = (case t of Txt s \<Rightarrow> s | Json v \<Rightarrow> json_dumps v)"

definition json_loads :: "rtext \<Rightarrow> error + pyval" where
  "json_loads t = (case t of Json v \<Rightarrow> Inr v | Txt s \<Rightarrow> Inl JSONDecodeError)"

text \<open>A key of the Redis keyspace holds a hash or a list.\<close>

datatype rentry = RHash "(string \<times> rtext) list" | RList "string list"

text \<open>
  What the Redis client hands back: \<open>bytes\<close>, or \<open>str\<close> when the client was created
  with \<open>decode_responses\<close>. \<open>redis.from_url(url)\<close> returns bytes unless the URL says
  otherwise.
\<close>

datatype pydata = PyBytes rtext | PyStr rtext

text \<open>A value given to \<open>hset\<close>: a Python value as the caller passed it, or a \<open>str\<close> the program built.\<close>

datatype hval = HVal pyval | HText rtext

datatype log_entry = LogError string error | LogInfo string

text \<open>
  The world the memory layer runs in: the Redis keyspace in the order \<open>KEYS\<close> lists it,
  the expiry set on keys, the Chroma collection \<open>long_term_memory\<close> in insertion order
  (id, document, metadata; a record stored without metadata has \<open>[]\<close>, which the client
  returns as \<open>None\<close>), the clock, the log, and for each store the schedule of
  calls that will fail (\<open>True\<close>: the next call raises; an empty schedule: no call fails).
  No time passes on the Redis server within the calls modelled, so no key expires.
\<close>

record world =
  decode_responses :: bool
  redis_db :: "(string \<times> rentry) list"
  redis_ttl :: "(string \<times> nat) list"
  redis_faults :: "bool list"
  collection :: "(string \<times> string \<times> (string \<times> pyval) list) list"
  chroma_faults :: "bool list"
  now :: datetime
  ticks :: "datetime list"
  log :: "log_entry list"

definition logger :: "log_entry \<Rightarrow> world \<Rightarrow> world" where
  "logger e w = w\<lparr>log := log w @ [e]\<rparr>"

text \<open>\<open>datetime.now()\<close>: the reading, and the clock moved to its next reading.\<close>

definition datetime_now :: "world \<Rightarrow> datetime \<times> world" where
  "datetime_now w =
     (now w, (case ticks w of [] \<Rightarrow> w | t # ts \<Rightarrow> w\<lparr>now := t, ticks := ts\<rparr>))"

definition redis_begin :: "world \<Rightarrow> bool \<times> world" where
  "redis_begin w =
     (case redis_faults w of [] \<Rightarrow> (False, w) | b # bs \<Rightarrow> (b, w\<lparr>redis_faults := bs\<rparr>))"

definition chroma_begin :: "world \<Rightarrow> bool \<times> world" where
  "chroma_begin w =
     (case chroma_faults w of [] \<Rightarrow> (False, w) | b # bs \<Rightarrow> (b, w\<lparr>chroma_faults := bs\<rparr>))"

subsection \<open>Redis commands\<close>

definition encode :: "hval \<Rightarrow> error + rtext" where
  "encode v = (case v of HText t \<Rightarrow> Inr t | HVal (PStr s) \<Rightarrow> Inr (Txt s) | HVal _ \<Rightarrow> Inl DataError)"

fun encode_mapping :: "(string \<times> hval) list \<Rightarrow> error + (string \<times> rtext) list" where
  "encode_mapping [] = Inr []"
| "encode_mapping ((k, v) # rest) =
     (case encode v of
        Inl e \<Rightarrow> Inl e
      | Inr t \<Rightarrow> (case encode_mapping rest of Inl e \<Rightarrow> Inl e | Inr ts \<Rightarrow> Inr ((k, t) # ts)))"

definition hset :: "string \<Rightarrow> (string \<times> hval) list \<Rightarrow> world \<Rightarrow> (error + unit) \<times> world" where
  "hset key mapping w =
     (case redis_begin w of
        (True, w1) \<Rightarrow> (Inl ConnectionError, w1)
      | (False, w1) \<Rightarrow>
          (case encode_mapping mapping of
             Inl e \<Rightarrow> (Inl e, w1)
           | Inr fs \<Rightarrow>
               (case map_of (redis_db w1) key of
                  Some (RList xs) \<Rightarrow> (Inl ResponseError, w1)
                | Some (RHash h) \<Rightarrow>
                    (Inr (), w1\<lparr>redis_db := AList.update key (RHash (alist_merge h fs)) (redis_db w1)\<rparr>)
                | None \<Rightarrow>
                    (Inr (), w1\<lparr>redis_db := AList.update key (RHash fs) (redis_db w1)\<rparr>))))"

definition expire :: "string \<Rightarrow> nat \<Rightarrow> world \<Rightarrow> (error + unit) \<times> world" where
  "expire key secs w =
     (case redis_begin w of
        (True, w1) \<Rightarrow> (Inl ConnectionError, w1)
      | (False, w1) \<Rightarrow>
          (case map_of (redis_db w1) key of
             None \<Rightarrow> (Inr (), w1)
           | Some e \<Rightarrow> (Inr (), w1\<lparr>redis_ttl := AList.update key secs (redis_ttl w1)\<rparr>)))"

definition as_reply :: "bool \<Rightarrow> rtext \<Rightarrow> pydata" where
  "as_reply decode t = (if decode then PyStr t else PyBytes t)"

definition hgetall :: "string \<Rightarrow> world \<Rightarrow> (error + (pydata \<times> pydata) list) \<times> world" where
  "hgetall key w =
     (case redis_begin w of
        (True, w1) \<Rightarrow> (Inl ConnectionError, w1)
      | (False, w1) \<Rightarrow>
          (case map_of (redis_db w1) key of
             None \<Rightarrow> (Inr [], w1)
           | Some (RList xs) \<Rightarrow> (Inl ResponseError, w1)
           | Some (RHash h) \<Rightarrow>
               (Inr (map (\<lambda>fv. (as_reply (decode_responses w1) (Txt (fst fv)),
                                 as_reply (decode_responses w1) (snd fv))) h), w1)))"

text \<open>
  \<open>KEYS prefix*\<close>. Redis leaves the order of the reply open; the model lists the keys in
  the order they were written, and nothing proved below depends on that order.
\<close>

definition keys_prefix :: "string \<Rightarrow> world \<Rightarrow> (error + pydata list) \<times> world" where
  "keys_prefix p w =
     (case redis_begin w of
        (True, w1) \<Rightarrow> (Inl ConnectionError, w1)
      | (False, w1) \<Rightarrow>
          (Inr (map (\<lambda>k. as_reply (decode_responses w1) (Txt k))
                  (filter (\<lambda>k. take (length p) k = p) (map fst (redis_db w1)))), w1))"

definition lpush :: "string \<Rightarrow> string \<Rightarrow> world \<Rightarrow> (error + unit) \<times> world" where
  "lpush key v w =
     (case redis_begin w of
        (True, w1) \<Rightarrow> (Inl ConnectionError, w1)
      | (False, w1) \<Rightarrow>
          (case map_of (redis_db w1) key of
             Some (RHash h) \<Rightarrow> (Inl ResponseError, w1)
           | Some (RList xs) \<Rightarrow>
               (Inr (), w1\<lparr>redis_db := AList.update key (RList (v # xs)) (redis_db w1)\<rparr>)
           | None \<Rightarrow> (Inr (), w1\<lparr>redis_db := AList.update key (RList [v]) (redis_db w1)\<rparr>)))"

text \<open>The elements from \<open>start\<close> to \<open>stop\<close>, both inclusive; a negative index counts from the end.\<close>

definition redis_range :: "'a list \<Rightarrow> int \<Rightarrow> int \<Rightarrow> 'a list" where
  "redis_range xs start stop =
     (let n = int (length xs);
          s = (if start < 0 then max 0 (n + start) else start);
          e = (if stop < 0 then n + stop else min stop (n - 1))
      in if s > e \<or> s \<ge> n then [] else take (nat (e - s + 1)) (drop (nat s) xs))"

definition redis_del :: "string list \<Rightarrow> world \<Rightarrow> world" where
  "redis_del ks w =
     w\<lparr>redis_db := filter (\<lambda>kv. fst kv \<notin> set ks) (redis_db w),
       redis_ttl := filter (\<lambda>kv. fst kv \<notin> set ks) (redis_ttl w)\<rparr>"

definition ltrim :: "string \<Rightarrow> int \<Rightarrow> int \<Rightarrow> world \<Rightarrow> (error + unit) \<times> world" where
  "ltrim key start stop w =
     (case redis_begin w of
        (True, w1) \<Rightarrow> (Inl ConnectionError, w1)
      | (False, w1) \<Rightarrow>
          (case map_of (redis_db w1) key of
             Some (RHash h) \<Rightarrow> (Inl ResponseError, w1)
           | Some (RList xs) \<Rightarrow>
               (if redis_range xs start stop = [] then (Inr (), redis_del [key] w1)
                else (Inr (), w1\<lparr>redis_db :=
                        AList.update key (RList (redis_range xs start stop)) (redis_db w1)\<rparr>))
           | None \<Rightarrow> (Inr (), w1)))"

definition lrange :: "string \<Rightarrow> int \<Rightarrow> int \<Rightarrow> world \<Rightarrow> (error + string list) \<times> world" where
  "lrange key start stop w =
     (case redis_begin w of
        (True, w1) \<Rightarrow> (Inl ConnectionError, w1)
      | (False, w1) \<Rightarrow>
          (case map_of (redis_db w1) key of
             Some (RHash h) \<Rightarrow> (Inl ResponseError, w1)
           | Some (RList xs) \<Rightarrow> (Inr (redis_range xs start stop), w1)
           | None \<Rightarrow> (Inr [], w1)))"


subsection \<open>Chroma collection calls\<close>

text \<open>A metadata value Chroma accepts is a scalar; of the values modelled, a \<open>str\<close>.\<close>

definition valid_metadata :: "(string \<times> pyval) list \<Rightarrow> bool" where
  "valid_metadata m = list_all (\<lambda>kv. case snd kv of PStr s \<Rightarrow> True | _ \<Rightarrow> False) m"

text \<open>
  \<open>collection.add(ids=[i], documents=[doc], metadatas=[m])\<close>. The document must be a
  \<open>str\<close>; an id already in the collection is left as it is.
\<close>

definition chroma_add ::
  "string \<Rightarrow> pyval \<Rightarrow> (string \<times> pyval) list \<Rightarrow> world \<Rightarrow> (error + unit) \<times> world" where
  "chroma_add i doc m w =
     (case chroma_begin w of
        (True, w1) \<Rightarrow> (Inl ConnectionError, w1)
      | (False, w1) \<Rightarrow>
          (case doc of
             PStr d \<Rightarrow>
               (if \<not> valid_metadata m then (Inl (ValueError ''metadata''), w1)
                else if i \<in> set (map fst (collection w1)) then (Inr (), w1)
                else (Inr (), w1\<lparr>collection := collection w1 @ [(i, d, m)]\<rparr>))
           | _ \<Rightarrow> (Inl (ValueError ''document''), w1)))"

text \<open>\<open>collection.get(ids=[i])\<close>.\<close>

definition chroma_get_ids ::
  "string \<Rightarrow> world \<Rightarrow> (error + (string \<times> string \<times> (string \<times> pyval) list) list) \<times> world" where
  "chroma_get_ids i w =
     (case chroma_begin w of
        (True, w1) \<Rightarrow> (Inl ConnectionError, w1)
      | (False, w1) \<Rightarrow> (Inr (filter (\<lambda>r. fst r = i) (collection w1)), w1))"

text \<open>The filter \<open>where={key: value}\<close>.\<close>

definition where_eq :: "string \<Rightarrow> string \<Rightarrow> (string \<times> string \<times> (string \<times> pyval) list) \<Rightarrow> bool" where
  "where_eq k v r = (map_of (snd (snd r)) k = Some (PStr v))"

text \<open>
  \<open>collection.get(where={k: v}, limit=n)\<close>: the first \<open>n\<close> matching records in the
  collection's order (all of them without a limit); a negative limit is refused.
\<close>

definition chroma_get_where ::
  "string \<Rightarrow> string \<Rightarrow> int option \<Rightarrow> world
     \<Rightarrow> (error + (string \<times> string \<times> (string \<times> pyval) list) list) \<times> world" where
  "chroma_get_where k v limit w =
     (case chroma_begin w of
        (True, w1) \<Rightarrow> (Inl ConnectionError, w1)
      | (False, w1) \<Rightarrow>
          (case limit of
             None \<Rightarrow> (Inr (filter (where_eq k v) (collection w1)), w1)
           | Some n \<Rightarrow>
               (if n < 0 then (Inl (ValueError ''limit''), w1)
                else (Inr (take (nat n) (filter (where_eq k v) (collection w1))), w1))))"

text \<open>
  \<open>collection.query(query_texts=[q], n_results=n, where={k: v})\<close>: the filter is applied,
  the matching records are ranked by the distance of their document to the query
  (\<open>dist\<close>, the embedding's distance, is a parameter), and the \<open>n\<close> nearest are returned;
  \<open>n\<close> must be positive.
\<close>

definition chroma_query ::
  "(string \<Rightarrow> string \<Rightarrow> nat) \<Rightarrow> string \<Rightarrow> int \<Rightarrow> string \<Rightarrow> string \<Rightarrow> world
     \<Rightarrow> (error + (string \<times> string \<times> (string \<times> pyval) list) list) \<times> world" where
  "chroma_query dist q n k v w =
     (case chroma_begin w of
        (True, w1) \<Rightarrow> (Inl ConnectionError, w1)
      | (False, w1) \<Rightarrow>
          (if n \<le> 0 then (Inl (ValueError ''n_results''), w1)
           else (Inr (take (nat n)
                        (sort_key (\<lambda>r. dist q (fst (snd r)))
                           (filter (where_eq k v) (collection w1)))), w1)))"

text \<open>\<open>collection.delete(ids=...)\<close>.\<close>

definition chroma_delete_ids :: "string list \<Rightarrow> world \<Rightarrow> (error + unit) \<times> world" where
  "chroma_delete_ids ids w =
     (case chroma_begin w of
        (True, w1) \<Rightarrow> (Inl ConnectionError, w1)
      | (False, w1) \<Rightarrow>
          (Inr (), w1\<lparr>collection := filter (\<lambda>r. fst r \<notin> set ids) (collection w1)\<rparr>))"

section \<open>MemoryManager\<close>

text \<open>
  \<open>store_memory(*args, **kwargs)\<close>, the unpacking of its three argument shapes: the
  content, the metadata and the owner found, before validation.
\<close>

definition owner_from :: "pyval \<Rightarrow> pyval \<Rightarrow> error + pyval" where
  "owner_from given metadata =
     (if truthy given then Inr given
      else if truthy metadata then attr_get metadata ''user_id'' else Inr PNone)"

fun unpack_args :: "pyval list \<Rightarrow> (string \<times> pyval) list \<Rightarrow> error + (pyval \<times> pyval \<times> pyval)" where
  "unpack_args [PDict memory_data] kwargs =
     (let content = dict_get memory_data ''content'';
          metadata = dict_get_default memory_data ''metadata'' (PDict [])
      in if truthy (dict_get memory_data ''user_id'')
         then Inr (content, metadata, dict_get memory_data ''user_id'')
         else (case attr_get metadata ''user_id'' of
                 Inl e \<Rightarrow> Inl e
               | Inr user_id \<Rightarrow> Inr (content, metadata, user_id)))"
| "unpack_args [content, metadata] kwargs =
     (case owner_from (dict_get kwargs ''user_id'') metadata of
        Inl e \<Rightarrow> Inl e
      | Inr user_id \<Rightarrow> Inr (content, metadata, user_id))"
| "unpack_args args kwargs =
     (let content = dict_get kwargs ''content'';
          metadata = dict_get_default kwargs ''metadata'' (PDict [])
      in case owner_from (dict_get kwargs ''user_id'') metadata of
           Inl e \<Rightarrow> Inl e
         | Inr user_id \<Rightarrow>
             (if content = PNone then Inl (ValueError ''Missing content for memory storage.'')
              else Inr (content, metadata, user_id)))"

definition sync_to_ltm :: "string \<Rightarrow> pyval \<Rightarrow> pyval \<Rightarrow> pyval \<Rightarrow> world \<Rightarrow> world" where
  "sync_to_ltm memory_id user_id content metadata w =
     (case datetime_now w of
        (t, w1) \<Rightarrow>
          (case py_or metadata (PDict []) of
             PDict md \<Rightarrow>
               (case chroma_add memory_id content
                       (AList.update ''created_at'' (PStr (isoformat t))
                          (alist_merge [(''user_id'', user_id)] md)) w1 of
                  (Inl e, w2) \<Rightarrow>
                    logger (LogError (''Failed to sync memory '' @ memory_id @ '' to LTM'') e) w2
                | (Inr u, w2) \<Rightarrow>
                    logger (LogInfo (''Successfully synced memory '' @ memory_id @ '' to LTM'')) w2)
           | _ \<Rightarrow>
               logger (LogError (''Failed to sync memory '' @ memory_id @ '' to LTM'') TypeError) w1))"

definition store_memory ::
  "pyval list \<Rightarrow> (string \<times> pyval) list \<Rightarrow> world \<Rightarrow> (error + string) \<times> world" where
  "store_memory args kwargs w =
     (case unpack_args args kwargs of
        Inl e \<Rightarrow> (Inl e, w)
      | Inr (content, metadata, found) \<Rightarrow>
          (if metadata \<noteq> PNone \<and> \<not> is_dict metadata
           then (Inl (ValueError ''Metadata must be a dictionary''), w)
           else
             (let user_id = (if \<not> truthy found then PStr ''test_user'' else found)
              in case datetime_now w of
                   (t1, w1) \<Rightarrow>
                     (let memory_id = py_str user_id @ ''_'' @ isoformat t1
                      in case datetime_now w1 of
                           (t2, w2) \<Rightarrow>
                             (case hset (''memory:'' @ memory_id)
                                     [(''user_id'', HVal user_id),
                                      (''content'', HVal content),
                                      (''metadata'', HText (Json (py_or metadata (PDict [])))),
                                      (''created_at'', HText (Txt (isoformat t2)))] w2 of
                                (Inl e, w3) \<Rightarrow>
                                  (Inl e, logger (LogError ''Failed to store in Redis'' e) w3)
                              | (Inr u, w3) \<Rightarrow>
                                  (case expire (''memory:'' @ memory_id) 3600 w3 of
                                     (Inl e, w4) \<Rightarrow>
                                       (Inl e, logger (LogError ''Failed to store in Redis'' e) w4)
                                   | (Inr u', w4) \<Rightarrow>
                                       (Inr memory_id,
                                        sync_to_ltm memory_id user_id content metadata w4)))))))"

text \<open>\<open>x.decode()\<close>: bytes have it, a \<open>str\<close> does not.\<close>

definition py_decode :: "pydata \<Rightarrow> error + rtext" where
  "py_decode x = (case x of PyBytes t \<Rightarrow> Inr t | PyStr t \<Rightarrow> Inl AttributeError)"

definition reply_get :: "(pydata \<times> pydata) list \<Rightarrow> pydata \<Rightarrow> pydata \<Rightarrow> pydata" where
  "reply_get d k dflt = (case map_of d k of None \<Rightarrow> dflt | Some v \<Rightarrow> v)"

text \<open>The dict \<open>get_memory\<close> builds from the Redis hash, or the exception raised on the way.\<close>

definition short_term_record :: "(pydata \<times> pydata) list \<Rightarrow> error + (string \<times> pyval) list" where
  "short_term_record memory_data =
     (case py_decode (reply_get memory_data (PyBytes (Txt ''content'')) (PyBytes (Txt []))) of
        Inl e \<Rightarrow> Inl e
      | Inr c \<Rightarrow>
          (case py_decode (reply_get memory_data (PyBytes (Txt ''metadata'')) (PyBytes (Json (PDict [])))) of
             Inl e \<Rightarrow> Inl e
           | Inr mt \<Rightarrow>
               (case json_loads mt of
                  Inl e \<Rightarrow> Inl e
                | Inr m \<Rightarrow>
                    (case py_decode (reply_get memory_data (PyBytes (Txt ''created_at'')) (PyBytes (Txt []))) of
                       Inl e \<Rightarrow> Inl e
                     | Inr ca \<Rightarrow>
                         Inr [(''content'', PStr (text_of c)),
                              (''metadata'', m),
                              (''created_at'', PStr (text_of ca)),
                              (''source'', PStr ''short_term'')]))))"

definition get_memory :: "string \<Rightarrow> world \<Rightarrow> (string \<times> pyval) list option \<times> world" where
  "get_memory memory_id w =
     (case hgetall (''memory:'' @ memory_id) w of
        (Inl e, w1) \<Rightarrow> (None, logger (LogError (''Failed to get memory '' @ memory_id) e) w1)
      | (Inr memory_data, w1) \<Rightarrow>
          (if memory_data \<noteq> [] then
             (case short_term_record memory_data of
                Inl e \<Rightarrow> (None, logger (LogError (''Failed to get memory '' @ memory_id) e) w1)
              | Inr r \<Rightarrow> (Some r, w1))
           else
             (case chroma_get_ids memory_id w1 of
                (Inl e, w2) \<Rightarrow> (None, logger (LogError (''Failed to get memory '' @ memory_id) e) w2)
              | (Inr results, w2) \<Rightarrow>
                  (case results of
                     [] \<Rightarrow> (None, w2)
                   | (i, doc, metadata) # rest \<Rightarrow>
                       (if metadata = []
                        then (None, logger (LogError (''Failed to get memory '' @ memory_id) AttributeError) w2)
                        else
                          (case datetime_now w2 of
                             (t, w3) \<Rightarrow>
                               (Some [(''content'', PStr doc),
                                      (''metadata'', PDict metadata),
                                      (''created_at'', dict_get_default metadata ''created_at'' (PStr (isoformat t))),
                                      (''source'', PStr ''long_term'')], w3)))))))"

text \<open>
  \<open>retrieve_context\<close>. The loop over \<open>keys[-limit:]\<close>: an exception ends it and keeps the
  memories collected so far.
\<close>

definition key_text :: "pydata \<Rightarrow> string" where
  "key_text k = (case k of PyBytes t \<Rightarrow> text_of t | PyStr t \<Rightarrow> text_of t)"

text \<open>\<open>memory.get("user_id") == user_id\<close> for a \<open>str\<close> \<open>user_id\<close>: bytes never equal a \<open>str\<close>.\<close>

definition owner_matches :: "(pydata \<times> pydata) list \<Rightarrow> string \<Rightarrow> bool" where
  "owner_matches memory user_id =
     (case map_of memory (PyStr (Txt ''user_id'')) of
        Some (PyStr t) \<Rightarrow> text_of t = user_id
      | _ \<Rightarrow> False)"

fun collect_recent ::
  "string \<Rightarrow> pydata list \<Rightarrow> (pydata \<times> pydata) list list \<Rightarrow> world
     \<Rightarrow> (pydata \<times> pydata) list list \<times> world" where
  "collect_recent user_id [] recent_memories w = (recent_memories, w)"
| "collect_recent user_id (key # rest) recent_memories w =
     (case hgetall (key_text key) w of
        (Inl e, w1) \<Rightarrow> (recent_memories, logger (LogError ''Failed to retrieve from Redis'' e) w1)
      | (Inr memory, w1) \<Rightarrow>
          (if memory \<noteq> [] \<and> owner_matches memory user_id
           then collect_recent user_id rest (recent_memories @ [memory]) w1
           else collect_recent user_id rest recent_memories w1))"

text \<open>\<open>str(x)\<close> of a reply value inside an f-string.\<close>

definition pydata_str :: "pydata \<Rightarrow> string" where
  "pydata_str x = (case x of PyStr t \<Rightarrow> text_of t | PyBytes t \<Rightarrow> ''b'' @ [CHR 0x27] @ text_of t @ [CHR 0x27])"

definition created_at_key :: "(pydata \<times> pydata) list \<Rightarrow> string" where
  "created_at_key x = key_text (reply_get x (PyStr (Txt ''created_at'')) (PyStr (Txt [])))"

fun memory_lines :: "(pydata \<times> pydata) list list \<Rightarrow> error + string list" where
  "memory_lines [] = Inr []"
| "memory_lines (m # ms) =
     (case map_of m (PyStr (Txt ''content'')) of
        None \<Rightarrow> Inl (KeyError ''content'')
      | Some c \<Rightarrow>
          (case memory_lines ms of
             Inl e \<Rightarrow> Inl e
           | Inr ls \<Rightarrow> Inr ((''Memory: '' @ pydata_str c) # ls)))"

definition retrieve_context :: "string \<Rightarrow> int \<Rightarrow> world \<Rightarrow> (error + string) \<times> world" where
  "retrieve_context user_id limit w =
     (case (case keys_prefix ''memory:'' w of
              (Inl e, w1) \<Rightarrow> ([], logger (LogError ''Failed to retrieve from Redis'' e) w1)
            | (Inr keys, w1) \<Rightarrow> collect_recent user_id (slice_last keys limit) [] w1) of
        (recent_memories, w2) \<Rightarrow>
          (case memory_lines (sorted_reverse created_at_key recent_memories) of
             Inl e \<Rightarrow> (Inl e, w2)
           | Inr ls \<Rightarrow> (Inr (intercalate [CHR 0x0A] ls), w2)))"

definition chroma_meta :: "(string \<times> pyval) list \<Rightarrow> pyval" where
  "chroma_meta m = (if m = [] then PNone else PDict m)"

definition search_memories ::
  "(string \<Rightarrow> string \<Rightarrow> nat) \<Rightarrow> string \<Rightarrow> string \<Rightarrow> int \<Rightarrow> world
     \<Rightarrow> (string \<times> pyval) list list \<times> world" where
  "search_memories dist user_id query limit w =
     (case chroma_query dist query limit ''user_id'' user_id w of
        (Inl e, w1) \<Rightarrow> ([], logger (LogError ''Failed to search memories'' e) w1)
      | (Inr results, w1) \<Rightarrow>
          (map (\<lambda>r. [(''id'', PStr (fst r)),
                      (''content'', PStr (fst (snd r))),
                      (''metadata'', chroma_meta (snd (snd r)))]) results, w1))"

text \<open>
  \<open>get_chat_context\<close>. A record enters the list to sort when its metadata has a
  \<open>created_at\<close> that \<open>fromisoformat\<close> reads; the others are skipped.
\<close>

fun memory_tuples ::
  "(string \<times> string \<times> (string \<times> pyval) list) list \<Rightarrow> (string \<times> datetime) list" where
  "memory_tuples [] = []"
| "memory_tuples ((i, doc, metadata) # rest) =
     (case map_of metadata ''created_at'' of
        Some (PStr s) \<Rightarrow>
          (case fromisoformat s of
             Some created_at \<Rightarrow> (doc, created_at) # memory_tuples rest
           | None \<Rightarrow> memory_tuples rest)
      | _ \<Rightarrow> memory_tuples rest)"

definition get_chat_context :: "string \<Rightarrow> int \<Rightarrow> world \<Rightarrow> string list \<times> world" where
  "get_chat_context user_id limit w =
     (case chroma_get_where ''user_id'' user_id (Some (limit * 2)) w of
        (Inl e, w1) \<Rightarrow> ([], w1)
      | (Inr results, w1) \<Rightarrow>
          (if results = [] then ([], w1)
           else (map fst (slice_first (sorted_reverse (\<lambda>x. dt_key (snd x)) (memory_tuples results)) limit),
                 w1)))"

section \<open>ShortTermMemory\<close>

definition ShortTermMemory_store ::
  "pyval \<Rightarrow> pyval \<Rightarrow> pyval \<Rightarrow> nat option \<Rightarrow> world \<Rightarrow> (error + string) \<times> world" where
  "ShortTermMemory_store user_id content metadata expires_in w =
     (if \<not> truthy user_id \<or> \<not> truthy content
      then (Inl (ValueError ''user_id and content are required''), w)
      else
        (case datetime_now w of
           (t1, w1) \<Rightarrow>
             (let memory_id = ''stm:'' @ py_str user_id @ '':'' @ isoformat t1
              in case datetime_now w1 of
                   (t2, w2) \<Rightarrow>
                     (case hset memory_id
                             [(''user_id'', HVal user_id),
                              (''content'', HVal content),
                              (''metadata'', HText (Json (py_or metadata (PDict [])))),
                              (''created_at'', HText (Txt (isoformat t2)))] w2 of
                        (Inl e, w3) \<Rightarrow> (Inl e, logger (LogError ''Failed to store memory'' e) w3)
                      | (Inr u, w3) \<Rightarrow>
                          (case (case expires_in of
                                   None \<Rightarrow> (Inr (), w3)
                                 | Some n \<Rightarrow> (if n = 0 then (Inr (), w3) else expire memory_id n w3)) of
                             (Inl e, w4) \<Rightarrow> (Inl e, logger (LogError ''Failed to store memory'' e) w4)
                           | (Inr u2, w4) \<Rightarrow>
                               (case lpush (''user:'' @ py_str user_id @ '':recent'') memory_id w4 of
                                  (Inl e, w5) \<Rightarrow>
                                    (Inl e, logger (LogError ''Failed to store memory'' e) w5)
                                | (Inr u3, w5) \<Rightarrow>
                                    (case ltrim (''user:'' @ py_str user_id @ '':recent'') 0 99 w5 of
                                       (Inl e, w6) \<Rightarrow>
                                         (Inl e, logger (LogError ''Failed to store memory'' e) w6)
                                     | (Inr u4, w6) \<Rightarrow> (Inr memory_id, w6))))))))"

text \<open>
  \<open>get\<close>: keys and values are decoded when they are bytes, and the \<open>metadata\<close> field is
  read back with \<open>json.loads\<close>.
\<close>

definition reply_text :: "pydata \<Rightarrow> rtext" where
  "reply_text x = (case x of PyBytes t \<Rightarrow> t | PyStr t \<Rightarrow> t)"

definition decoded_fields :: "(pydata \<times> pydata) list \<Rightarrow> (string \<times> rtext) list" where
  "decoded_fields memory = map (\<lambda>kv. (key_text (fst kv), reply_text (snd kv))) memory"

fun loaded_fields :: "(string \<times> rtext) list \<Rightarrow> error + (string \<times> pyval) list" where
  "loaded_fields [] = Inr []"
| "loaded_fields ((k, v) # rest) =
     (case (if k = ''metadata'' then json_loads v else Inr (PStr (text_of v))) of
        Inl e \<Rightarrow> Inl e
      | Inr x \<Rightarrow>
          (case loaded_fields rest of
             Inl e \<Rightarrow> Inl e
           | Inr fs \<Rightarrow> Inr ((k, x) # fs)))"

definition ShortTermMemory_get :: "string \<Rightarrow> world \<Rightarrow> (string \<times> pyval) list option \<times> world" where
  "ShortTermMemory_get memory_id w =
     (case hgetall memory_id w of
        (Inl e, w1) \<Rightarrow> (None, logger (LogError ''Failed to get memory'' e) w1)
      | (Inr memory, w1) \<Rightarrow>
          (if memory = [] then (None, w1)
           else (case loaded_fields (decoded_fields memory) of
                   Inl e \<Rightarrow> (None, logger (LogError ''Failed to get memory'' e) w1)
                 | Inr m \<Rightarrow> (Some m, w1))))"

fun get_each :: "string list \<Rightarrow> world \<Rightarrow> (string \<times> pyval) list list \<times> world" where
  "get_each [] w = ([], w)"
| "get_each (memory_id # rest) w =
     (case ShortTermMemory_get memory_id w of
        (None, w1) \<Rightarrow> get_each rest w1
      | (Some memory, w1) \<Rightarrow>
          (case get_each rest w1 of
             (memories, w2) \<Rightarrow> ((if memory \<noteq> [] then [memory] else []) @ memories, w2)))"

definition get_recent :: "string \<Rightarrow> int \<Rightarrow> world \<Rightarrow> (string \<times> pyval) list list \<times> world" where
  "get_recent user_id limit w =
     (case lrange (''user:'' @ user_id @ '':recent'') 0 (limit - 1) w of
        (Inl e, w1) \<Rightarrow> ([], logger (LogError ''Failed to get recent memories'' e) w1)
      | (Inr memory_ids, w1) \<Rightarrow> get_each memory_ids w1)"


section \<open>LongTermMemory\<close>

definition LongTermMemory_store ::
  "pyval \<Rightarrow> pyval \<Rightarrow> pyval \<Rightarrow> world \<Rightarrow> (error + string) \<times> world" where
  "LongTermMemory_store user_id content metadata w =
     (if \<not> truthy user_id \<or> \<not> truthy content
      then (Inl (ValueError ''user_id and content are required''), w)
      else
        (case datetime_now w of
           (t1, w1) \<Rightarrow>
             (let memory_id = ''ltm:'' @ py_str user_id @ '':'' @ isoformat t1
              in case datetime_now w1 of
                   (t2, w2) \<Rightarrow>
                     (case py_or metadata (PDict []) of
                        PDict md \<Rightarrow>
                          (case chroma_add memory_id content
                                  (alist_merge [(''user_id'', user_id),
                                                (''created_at'', PStr (isoformat t2))] md) w2 of
                             (Inl e, w3) \<Rightarrow> (Inl e, logger (LogError ''Failed to store memory'' e) w3)
                           | (Inr u, w3) \<Rightarrow> (Inr memory_id, w3))
                      | _ \<Rightarrow> (Inl TypeError, w2)))))"

definition LongTermMemory_search ::
  "(string \<Rightarrow> string \<Rightarrow> nat) \<Rightarrow> string \<Rightarrow> string \<Rightarrow> int \<Rightarrow> world
     \<Rightarrow> (string \<times> pyval) list list \<times> world" where
  "LongTermMemory_search dist user_id query limit w =
     (case chroma_query dist query limit ''user_id'' user_id w of
        (Inl e, w1) \<Rightarrow> ([], logger (LogError ''Failed to search memories'' e) w1)
      | (Inr results, w1) \<Rightarrow>
          (map (\<lambda>r. [(''id'', PStr (fst r)),
                      (''content'', PStr (fst (snd r))),
                      (''metadata'', chroma_meta (snd (snd r)))]) results, w1))"

definition purge :: "string \<Rightarrow> world \<Rightarrow> (error + unit) \<times> world" where
  "purge user_id w =
     (case chroma_get_where ''user_id'' user_id None w of
        (Inl e, w1) \<Rightarrow> (Inl e, logger (LogError ''Failed to purge memories'' e) w1)
      | (Inr results, w1) \<Rightarrow>
          (if results \<noteq> [] then
             (case chroma_delete_ids (map fst results) w1 of
                (Inl e, w2) \<Rightarrow> (Inl e, logger (LogError ''Failed to purge memories'' e) w2)
              | (Inr u, w2) \<Rightarrow> (Inr (), w2))
           else (Inr (), w1)))"

section \<open>Conditions on the world\<close>

text \<open>The next call to the store is answered (it is not scheduled to fail).\<close>

definition redis_answers :: "world \<Rightarrow> bool" where
  "redis_answers w = (\<not> fst (redis_begin w))"

definition chroma_answers :: "world \<Rightarrow> bool" where
  "chroma_answers w = (\<not> fst (chroma_begin w))"

text \<open>The \<open>metadata\<close> field of a hash is absent or holds a JSON document.\<close>

definition metadata_readable :: "(string \<times> rtext) list \<Rightarrow> bool" where
  "metadata_readable h = (case map_of h ''metadata'' of Some (Txt s) \<Rightarrow> False | _ \<Rightarrow> True)"

definition field_text :: "(string \<times> rtext) list \<Rightarrow> string \<Rightarrow> string" where
  "field_text h k = (case map_of h k of None \<Rightarrow> [] | Some t \<Rightarrow> text_of t)"

definition field_json :: "(string \<times> rtext) list \<Rightarrow> pyval" where
  "field_json h = (case map_of h ''metadata'' of Some (Json v) \<Rightarrow> v | _ \<Rightarrow> PDict [])"

text \<open>Redis holds nothing under the key of the memory.\<close>

definition short_term_miss :: "world \<Rightarrow> string \<Rightarrow> bool" where
  "short_term_miss w memory_id =
     (map_of (redis_db w) (''memory:'' @ memory_id) = None
      \<or> map_of (redis_db w) (''memory:'' @ memory_id) = Some (RHash []))"

section \<open>Worlds used as examples\<close>

definition t0 :: datetime where
  "t0 = \<lparr>year = 2024, month = 1, day = 2, hour = 3, minute = 4, second = 5, microsecond = 6\<rparr>"

definition two_owner_world :: world where
  "two_owner_world =
     \<lparr>decode_responses = False, redis_db = [], redis_ttl = [], redis_faults = [],
      collection =
        [(''u2_a'', ''neural networks'', [(''user_id'', PStr ''u2''), (''created_at'', PStr ''2024-01-02T03:04:05'')]),
         (''u1_a'', ''gardening'', [(''user_id'', PStr ''u1''), (''created_at'', PStr ''2024-01-02T03:04:06'')])],
      chroma_faults = [], now = t0, ticks = [], log = []\<rparr>"

definition tiered_world :: world where
  "tiered_world =
     two_owner_world\<lparr>redis_db :=
       [(''memory:u2_a'',
         RHash [(''user_id'', Txt ''u2''), (''content'', Txt ''neural networks''),
                (''metadata'', Json (PDict [(''topic'', PStr ''ai'')])),
                (''created_at'', Txt ''2024-01-02T03:04:05'')])]\<rparr>"

text \<open>The next \<open>n\<close> Redis calls are answered.\<close>

definition redis_up :: "nat \<Rightarrow> world \<Rightarrow> bool" where
  "redis_up n w = (True \<notin> set (take n (redis_faults w)))"

text \<open>The owner \<open>store_memory\<close> settles on, and the id it forms from the owner and the clock reading.\<close>

definition owner_or_default :: "pyval \<Rightarrow> pyval" where
  "owner_or_default found = (if \<not> truthy found then PStr ''test_user'' else found)"

definition new_memory_id :: "pyval \<Rightarrow> datetime \<Rightarrow> string" where
  "new_memory_id user_id t = py_str user_id @ ''_'' @ isoformat t"

definition holds_list :: "world \<Rightarrow> string \<Rightarrow> bool" where
  "holds_list w key = (case map_of (redis_db w) key of Some (RList xs) \<Rightarrow> True | _ \<Rightarrow> False)"

definition empty_world :: world where
  "empty_world =
     \<lparr>decode_responses = False, redis_db = [], redis_ttl = [], redis_faults = [],
      collection = [], chroma_faults = [], now = t0, ticks = [], log = []\<rparr>"

definition ltm_down_world :: world where
  "ltm_down_world = empty_world\<lparr>chroma_faults := [True]\<rparr>"








text \<open>The value a key has after \<open>{**a, **b}\<close>: the one of \<open>b\<close> when \<open>b\<close> has the key.\<close>

definition overriding :: "(string \<times> pyval) list \<Rightarrow> string \<Rightarrow> pyval \<Rightarrow> pyval" where
  "overriding md k v = (case map_of md k of Some x \<Rightarrow> x | None \<Rightarrow> v)"

text \<open>The next \<open>n\<close> Chroma calls are answered.\<close>

definition chroma_up :: "nat \<Rightarrow> world \<Rightarrow> bool" where
  "chroma_up n w = (True \<notin> set (take n (chroma_faults w)))"

text \<open>
  The call \<open>store_memory(user_id="alice", content="hi", metadata={"user_id": "bob"})\<close>, and the
  world it leaves when issued in the empty world.
\<close>

definition misfiled_call :: "(string \<times> pyval) list" where
  "misfiled_call =
     [(''user_id'', PStr ''alice''), (''content'', PStr ''hi''),
      (''metadata'', PDict [(''user_id'', PStr ''bob'')])]"

definition misfiled_world :: world where
  "misfiled_world = snd (store_memory [] misfiled_call empty_world)"

text \<open>
  A clock that reads \<open>t0\<close> during a first \<open>store_memory\<close> call (which reads it three
  times), one microsecond later during a second and two microseconds later during a third.
\<close>

definition later :: datetime where
  "later = \<lparr>year = 2024, month = 1, day = 2, hour = 3, minute = 4, second = 5, microsecond = 7\<rparr>"

definition latest :: datetime where
  "latest = \<lparr>year = 2024, month = 1, day = 2, hour = 3, minute = 4, second = 5, microsecond = 8\<rparr>"

definition ticking_world :: world where
  "ticking_world = empty_world\<lparr>ticks := [t0, t0, later, later, later, latest, latest, latest]\<rparr>"

text \<open>
  The world two calls of owner \<open>u1\<close> leave: \<open>store_memory(user_id="u1",
  content="First message about AI")\<close>, then the same with \<open>"Second message about ML"\<close>.
\<close>

definition two_message_world :: world where
  "two_message_world =
     snd (store_memory [] [(''user_id'', PStr ''u1''), (''content'', PStr ''Second message about ML'')]
            (snd (store_memory [] [(''user_id'', PStr ''u1''), (''content'', PStr ''First message about AI'')]
                    ticking_world)))"

text \<open>
  The world a third call of owner \<open>u1\<close> leaves, \<open>store_memory(user_id="u1",
  content="Third message about DL")\<close>: the long-term collection holds the three records,
  oldest first.
\<close>

definition three_message_world :: world where
  "three_message_world =
     snd (store_memory [] [(''user_id'', PStr ''u1''), (''content'', PStr ''Third message about DL'')]
            two_message_world)"

section \<open>The store clients\<close>

lemma redis_begin_keeps [simp]:
  "decode_responses (snd (redis_begin w)) = decode_responses w"
  "redis_db (snd (redis_begin w)) = redis_db w"
  "redis_ttl (snd (redis_begin w)) = redis_ttl w"
  "collection (snd (redis_begin w)) = collection w"
  "chroma_faults (snd (redis_begin w)) = chroma_faults w"
  "now (snd (redis_begin w)) = now w"
  "ticks (snd (redis_begin w)) = ticks w"
  "log (snd (redis_begin w)) = log w"
  by (simp_all add: redis_begin_def split: list.splits)

lemma chroma_begin_keeps [simp]:
  "decode_responses (snd (chroma_begin w)) = decode_responses w"
  "redis_db (snd (chroma_begin w)) = redis_db w"
  "redis_ttl (snd (chroma_begin w)) = redis_ttl w"
  "collection (snd (chroma_begin w)) = collection w"
  "redis_faults (snd (chroma_begin w)) = redis_faults w"
  "now (snd (chroma_begin w)) = now w"
  "ticks (snd (chroma_begin w)) = ticks w"
  "log (snd (chroma_begin w)) = log w"
  by (simp_all add: chroma_begin_def split: list.splits)

lemma hgetall_eq:
  "hgetall key w =
     (if fst (redis_begin w) then (Inl ConnectionError, snd (redis_begin w))
      else (case map_of (redis_db w) key of
              None \<Rightarrow> (Inr [], snd (redis_begin w))
            | Some (RList xs) \<Rightarrow> (Inl ResponseError, snd (redis_begin w))
            | Some (RHash h) \<Rightarrow>
                (Inr (map (\<lambda>fv. (as_reply (decode_responses w) (Txt (fst fv)),
                                  as_reply (decode_responses w) (snd fv))) h), snd (redis_begin w))))"
  by (auto simp: hgetall_def redis_begin_def split: list.splits option.splits rentry.splits)

lemma chroma_get_ids_eq:
  "chroma_get_ids i w =
     (if fst (chroma_begin w) then (Inl ConnectionError, snd (chroma_begin w))
      else (Inr (filter (\<lambda>r. fst r = i) (collection w)), snd (chroma_begin w)))"
  by (auto simp: chroma_get_ids_def chroma_begin_def split: list.splits)

lemma reply_get_bytes:
  "reply_get (map (\<lambda>fv. (PyBytes (Txt (fst fv)), PyBytes (snd fv))) h) (PyBytes (Txt k)) dflt
     = (case map_of h k of None \<Rightarrow> dflt | Some v \<Rightarrow> PyBytes v)"
  by (induction h) (auto simp: reply_get_def)

lemma reply_get_str:
  "reply_get (map (\<lambda>fv. (PyStr (Txt (fst fv)), PyStr (snd fv))) h) (PyBytes t) dflt = dflt"
  by (induction h) (auto simp: reply_get_def)

lemma short_term_record_bytes:
  "metadata_readable h \<Longrightarrow>
   short_term_record (map (\<lambda>fv. (PyBytes (Txt (fst fv)), PyBytes (snd fv))) h) =
     Inr [(''content'', PStr (field_text h ''content'')),
          (''metadata'', field_json h),
          (''created_at'', PStr (field_text h ''created_at'')),
          (''source'', PStr ''short_term'')]"
  by (simp add: short_term_record_def reply_get_bytes py_decode_def json_loads_def metadata_readable_def
        text_of_def field_text_def field_json_def split: option.splits rtext.splits)

lemma short_term_record_str:
  "short_term_record (map (\<lambda>fv. (PyStr (Txt (fst fv)), PyStr (snd fv))) h) =
     Inr [(''content'', PStr []), (''metadata'', PDict []), (''created_at'', PStr []),
          (''source'', PStr ''short_term'')]"
  by (simp add: short_term_record_def reply_get_str py_decode_def json_loads_def text_of_def)

lemma short_term_record_source:
  "short_term_record d = Inr r \<Longrightarrow> dict_get r ''source'' = PStr ''short_term''"
  by (auto simp: short_term_record_def dict_get_def dict_get_default_def split: sum.splits)

lemma get_memory_hit:
  assumes "redis_answers w" "map_of (redis_db w) (''memory:'' @ memory_id) = Some (RHash h)" "h \<noteq> []"
    "decode_responses w \<or> metadata_readable h"
  shows "\<exists>r. fst (get_memory memory_id w) = Some r \<and> dict_get r ''source'' = PStr ''short_term''"
proof (cases "decode_responses w")
  case True
  with assms show ?thesis
    by (simp add: get_memory_def hgetall_eq redis_answers_def as_reply_def short_term_record_str
          dict_get_def dict_get_default_def)
next
  case False
  with assms have "metadata_readable h" by simp
  with assms False show ?thesis
    by (simp add: get_memory_def hgetall_eq redis_answers_def as_reply_def short_term_record_bytes
          dict_get_def dict_get_default_def)
qed

lemma get_memory_miss:
  assumes "redis_answers w" "chroma_answers w"
    "short_term_miss w memory_id"
  shows "fst (get_memory memory_id w) =
           (case filter (\<lambda>r. fst r = memory_id) (collection w) of
              [] \<Rightarrow> None
            | (i, doc, m) # rest \<Rightarrow>
                if m = [] then None
                else Some [(''content'', PStr doc), (''metadata'', PDict m),
                           (''created_at'', dict_get_default m ''created_at'' (PStr (isoformat (now w)))),
                           (''source'', PStr ''long_term'')])"
  using assms
  by (auto simp: get_memory_def hgetall_eq chroma_get_ids_eq redis_answers_def chroma_answers_def
        chroma_begin_def datetime_now_def short_term_miss_def
      split: list.splits prod.splits)

lemma get_memory_tag:
  "fst (get_memory memory_id w) = Some r \<Longrightarrow>
     dict_get r ''source'' = PStr ''short_term'' \<or> dict_get r ''source'' = PStr ''long_term''"
  by (auto simp: get_memory_def dict_get_def dict_get_default_def
      split: prod.splits sum.splits if_splits list.splits dest: short_term_record_source)

section \<open>Search\<close>

lemma chroma_query_subset:
  "fst (chroma_query dist q n k v w) = Inr rs \<Longrightarrow> set rs \<subseteq> {r \<in> set (collection w). where_eq k v r}"
  by (auto simp: chroma_query_def chroma_begin_def split: list.splits if_splits bool.splits dest!: in_set_takeD)

lemma where_eq_meta:
  "where_eq k v r \<Longrightarrow> chroma_meta (snd (snd r)) = PDict (snd (snd r)) \<and> dict_get (snd (snd r)) k = PStr v"
  by (auto simp: where_eq_def chroma_meta_def dict_get_def dict_get_default_def)

text \<open>
  C6. Owner isolation of search: every record \<open>search_memories\<close> (and
  \<open>LongTermMemory.search\<close>) returns carries the requested owner under \<open>user_id\<close> in its
  metadata, whatever the query, the limit, the distance the ranking uses, the content
  of the collection and the failures of the store. The filter is part of the query
  itself, so the ranking only ever sees the owner's records.
\<close>

theorem search_memories_owner_isolation:
  "(\<forall>r \<in> set (fst (search_memories dist user_id query limit w)).
      \<exists>m. dict_get r ''metadata'' = PDict m \<and> dict_get m ''user_id'' = PStr user_id)
   \<and> (\<forall>r \<in> set (fst (LongTermMemory_search dist user_id query limit w)).
      \<exists>m. dict_get r ''metadata'' = PDict m \<and> dict_get m ''user_id'' = PStr user_id)"
proof -
  have key: "\<And>rs r. fst (chroma_query dist query limit ''user_id'' user_id w) = Inr rs \<Longrightarrow> r \<in> set rs
      \<Longrightarrow> \<exists>m. dict_get [(''id'', PStr (fst r)), (''content'', PStr (fst (snd r))),
                           (''metadata'', chroma_meta (snd (snd r)))] ''metadata'' = PDict m
              \<and> dict_get m ''user_id'' = PStr user_id"
  proof -
    fix rs r
    assume a: "fst (chroma_query dist query limit ''user_id'' user_id w) = Inr rs" and b: "r \<in> set rs"
    from chroma_query_subset[OF a] b have "where_eq ''user_id'' user_id r" by auto
    from where_eq_meta[OF this] show "\<exists>m. dict_get [(''id'', PStr (fst r)), (''content'', PStr (fst (snd r))),
                           (''metadata'', chroma_meta (snd (snd r)))] ''metadata'' = PDict m
              \<and> dict_get m ''user_id'' = PStr user_id"
      by (simp add: dict_get_def dict_get_default_def)
  qed
  show ?thesis
  proof (cases "chroma_query dist query limit ''user_id'' user_id w")
    case (Pair res w1)
    show ?thesis
    proof (cases res)
      case (Inl e)
      with Pair show ?thesis by (simp add: search_memories_def LongTermMemory_search_def)
    next
      case (Inr rs)
      with Pair key[of rs] show ?thesis
        by (auto simp: search_memories_def LongTermMemory_search_def)
    qed
  qed
qed

theorem search_memories_owner_isolation_witness:
  "fst (search_memories (\<lambda>q d. length d) ''u1'' ''neural'' 5 two_owner_world) \<noteq> []
   \<and> (\<exists>m. dict_get (hd (fst (search_memories (\<lambda>q d. length d) ''u1'' ''neural'' 5 two_owner_world)))
             ''metadata'' = PDict m \<and> dict_get m ''user_id'' = PStr ''u1'')
   \<and> fst (LongTermMemory_search (\<lambda>q d. length d) ''u1'' ''neural'' 5 two_owner_world) \<noteq> []
   \<and> (\<exists>m. dict_get (hd (fst (LongTermMemory_search (\<lambda>q d. length d) ''u1'' ''neural'' 5 two_owner_world)))
             ''metadata'' = PDict m \<and> dict_get m ''user_id'' = PStr ''u1'')"
  using search_memories_owner_isolation [of "\<lambda>q d. length d" "''u1''" "''neural''" 5 two_owner_world]
  by (simp add: search_memories_def LongTermMemory_search_def chroma_query_def chroma_begin_def
        two_owner_world_def where_eq_def)

section \<open>Lookup\<close>

lemma get_memory_hit_ltm_untouched:
  assumes "redis_answers w" "map_of (redis_db w) (''memory:'' @ memory_id) = Some (RHash h)" "h \<noteq> []"
  shows "chroma_faults (snd (get_memory memory_id w)) = chroma_faults w
         \<and> collection (snd (get_memory memory_id w)) = collection w"
  using assms
  by (simp add: get_memory_def hgetall_eq redis_answers_def logger_def split: sum.splits)

text \<open>
  C4. \<open>get_memory\<close> looks in Redis first. When Redis answers and holds a hash under the
  key whose metadata can be read, the record returned is tagged \<open>short_term\<close> and Chroma
  is not called. When Redis holds nothing and Chroma has the id, the record is tagged
  \<open>long_term\<close>. When neither has it the result is \<open>None\<close>. The result is an optional
  record in every world, failing stores included: no exception leaves \<open>get_memory\<close>, and
  a record returned carries one of the two tags.
\<close>

theorem get_memory_lookup_order:
  "(redis_answers w \<and> map_of (redis_db w) (''memory:'' @ memory_id) = Some (RHash h) \<and> h \<noteq> []
       \<and> (decode_responses w \<or> metadata_readable h)
     \<longrightarrow> (\<exists>r. fst (get_memory memory_id w) = Some r \<and> dict_get r ''source'' = PStr ''short_term'')
         \<and> chroma_faults (snd (get_memory memory_id w)) = chroma_faults w)
   \<and> (redis_answers w \<and> chroma_answers w \<and> short_term_miss w memory_id
       \<and> filter (\<lambda>r. fst r = memory_id) (collection w) = (i, doc, m) # rest \<and> m \<noteq> []
     \<longrightarrow> (\<exists>r. fst (get_memory memory_id w) = Some r \<and> dict_get r ''source'' = PStr ''long_term''
              \<and> dict_get r ''content'' = PStr doc))
   \<and> (redis_answers w \<and> chroma_answers w \<and> short_term_miss w memory_id
       \<and> filter (\<lambda>r. fst r = memory_id) (collection w) = []
     \<longrightarrow> fst (get_memory memory_id w) = None)
   \<and> (\<forall>r. fst (get_memory memory_id w) = Some r
     \<longrightarrow> dict_get r ''source'' = PStr ''short_term'' \<or> dict_get r ''source'' = PStr ''long_term'')"
  using get_memory_hit [of w memory_id h] get_memory_hit_ltm_untouched [of w memory_id h]
    get_memory_miss [of w memory_id] get_memory_tag [of memory_id w]
  by (auto simp: dict_get_def dict_get_default_def)

theorem get_memory_lookup_order_witness:
  "fst (get_memory ''u2_a'' tiered_world) \<noteq> None
   \<and> dict_get (the (fst (get_memory ''u2_a'' tiered_world))) ''source'' = PStr ''short_term''
   \<and> fst (get_memory ''u1_a'' tiered_world) \<noteq> None
   \<and> dict_get (the (fst (get_memory ''u1_a'' tiered_world))) ''source'' = PStr ''long_term''
   \<and> fst (get_memory ''u3_a'' tiered_world) = None"
  using get_memory_lookup_order [of tiered_world "''u2_a''"
      "[(''user_id'', Txt ''u2''), (''content'', Txt ''neural networks''),
        (''metadata'', Json (PDict [(''topic'', PStr ''ai'')])),
        (''created_at'', Txt ''2024-01-02T03:04:05'')]"]
    get_memory_lookup_order [of tiered_world "''u1_a''" _ "''u1_a''" "''gardening''"
      "[(''user_id'', PStr ''u1''), (''created_at'', PStr ''2024-01-02T03:04:06'')]" "[]"]
    get_memory_lookup_order [of tiered_world "''u3_a''"]
  by (auto simp: tiered_world_def two_owner_world_def redis_answers_def chroma_answers_def
        redis_begin_def chroma_begin_def metadata_readable_def short_term_miss_def)

section \<open>The write path\<close>

lemma redis_up_Suc:
  "redis_up (Suc n) w \<Longrightarrow> \<not> fst (redis_begin w) \<and> redis_up n (snd (redis_begin w))"
  by (auto simp: redis_up_def redis_begin_def split: list.splits)

lemma redis_up_answers: "redis_up (Suc n) w \<Longrightarrow> redis_answers w"
  by (simp add: redis_answers_def redis_up_Suc)

lemma redis_faults_begin: "redis_faults (snd (redis_begin w)) = tl (redis_faults w)"
  by (simp add: redis_begin_def split: list.splits)

lemma datetime_now_keeps [simp]:
  "fst (datetime_now w) = now w"
  "decode_responses (snd (datetime_now w)) = decode_responses w"
  "redis_db (snd (datetime_now w)) = redis_db w"
  "redis_ttl (snd (datetime_now w)) = redis_ttl w"
  "redis_faults (snd (datetime_now w)) = redis_faults w"
  "collection (snd (datetime_now w)) = collection w"
  "chroma_faults (snd (datetime_now w)) = chroma_faults w"
  "log (snd (datetime_now w)) = log w"
  by (simp_all add: datetime_now_def split: list.splits)

lemma logger_keeps [simp]:
  "decode_responses (logger e w) = decode_responses w"
  "redis_db (logger e w) = redis_db w"
  "redis_ttl (logger e w) = redis_ttl w"
  "redis_faults (logger e w) = redis_faults w"
  "collection (logger e w) = collection w"
  "chroma_faults (logger e w) = chroma_faults w"
  "now (logger e w) = now w"
  "ticks (logger e w) = ticks w"
  "log (logger e w) = log w @ [e]"
  by (simp_all add: logger_def)

lemma chroma_add_eq:
  "chroma_add i doc m w =
     (if fst (chroma_begin w) then (Inl ConnectionError, snd (chroma_begin w))
      else (case doc of
              PStr d \<Rightarrow>
                (if \<not> valid_metadata m then (Inl (ValueError ''metadata''), snd (chroma_begin w))
                 else if i \<in> set (map fst (collection w)) then (Inr (), snd (chroma_begin w))
                 else (Inr (), (snd (chroma_begin w))\<lparr>collection := collection w @ [(i, d, m)]\<rparr>))
            | _ \<Rightarrow> (Inl (ValueError ''document''), snd (chroma_begin w))))"
  by (auto simp: chroma_add_def chroma_begin_def split: list.splits pyval.splits)

lemma chroma_add_keeps [simp]:
  "decode_responses (snd (chroma_add i doc m w)) = decode_responses w"
  "redis_db (snd (chroma_add i doc m w)) = redis_db w"
  "redis_ttl (snd (chroma_add i doc m w)) = redis_ttl w"
  "redis_faults (snd (chroma_add i doc m w)) = redis_faults w"
  "log (snd (chroma_add i doc m w)) = log w"
  by (simp_all add: chroma_add_eq split: pyval.splits)

lemma sync_to_ltm_keeps [simp]:
  "decode_responses (sync_to_ltm i u c m w) = decode_responses w"
  "redis_db (sync_to_ltm i u c m w) = redis_db w"
  "redis_ttl (sync_to_ltm i u c m w) = redis_ttl w"
  "redis_faults (sync_to_ltm i u c m w) = redis_faults w"
  by (simp_all add: sync_to_ltm_def case_prod_unfold split: pyval.splits sum.splits)

lemma hset_eq:
  "hset key mapping w =
     (if fst (redis_begin w) then (Inl ConnectionError, snd (redis_begin w))
      else (case encode_mapping mapping of
              Inl e \<Rightarrow> (Inl e, snd (redis_begin w))
            | Inr fs \<Rightarrow>
                (case map_of (redis_db w) key of
                   Some (RList xs) \<Rightarrow> (Inl ResponseError, snd (redis_begin w))
                 | Some (RHash h) \<Rightarrow>
                     (Inr (), (snd (redis_begin w))\<lparr>redis_db :=
                        AList.update key (RHash (alist_merge h fs)) (redis_db w)\<rparr>)
                 | None \<Rightarrow>
                     (Inr (), (snd (redis_begin w))\<lparr>redis_db :=
                        AList.update key (RHash fs) (redis_db w)\<rparr>))))"
  by (auto simp: hset_def redis_begin_def split: list.splits sum.splits option.splits rentry.splits)

lemma expire_eq:
  "expire key secs w =
     (if fst (redis_begin w) then (Inl ConnectionError, snd (redis_begin w))
      else (case map_of (redis_db w) key of
              None \<Rightarrow> (Inr (), snd (redis_begin w))
            | Some e \<Rightarrow> (Inr (), (snd (redis_begin w))\<lparr>redis_ttl := AList.update key secs (redis_ttl w)\<rparr>)))"
  by (auto simp: expire_def redis_begin_def split: list.splits option.splits)

lemma map_of_alist_merge:
  "distinct (map fst b) \<Longrightarrow> map_of (alist_merge a b) = map_of a ++ map_of b"
proof (induction b arbitrary: a)
  case Nil
  then show ?case by (simp add: alist_merge_def)
next
  case (Cons kv b)
  have "alist_merge a (kv # b) = alist_merge (AList.update (fst kv) (snd kv) a) b"
    by (simp add: alist_merge_def)
  moreover from Cons have "map_of (alist_merge (AList.update (fst kv) (snd kv) a) b)
      = map_of (AList.update (fst kv) (snd kv) a) ++ map_of b" by simp
  moreover from Cons.prems have "fst kv \<notin> dom (map_of b)"
    by (simp add: dom_map_of_conv_image_fst)
  ultimately show ?case
    by (cases kv) (auto simp: update_conv' map_add_def fun_eq_iff split: option.splits)
qed

lemma fst_redis_begin: "fst (redis_begin w) = (redis_faults w \<noteq> [] \<and> hd (redis_faults w))"
  by (simp add: redis_begin_def split: list.splits)

lemma redis_up_0 [simp]: "redis_up 0 w"
  by (simp add: redis_up_def)

lemma redis_up_Suc_iff:
  "redis_up (Suc n) w = (\<not> fst (redis_begin w) \<and> redis_up n (snd (redis_begin w)))"
  by (auto simp: redis_up_def redis_begin_def split: list.splits)

lemma redis_up_cong: "redis_faults w' = redis_faults w \<Longrightarrow> redis_up n w' = redis_up n w"
  by (simp add: redis_up_def)

lemma redis_begin_cong:
  "redis_faults w' = redis_faults w \<Longrightarrow> fst (redis_begin w') = fst (redis_begin w)"
  by (simp add: fst_redis_begin)

lemma owner_or_default_str:
  "\<not> is_dict found \<Longrightarrow> \<exists>s. owner_or_default found = PStr s \<and> s \<noteq> []"
  by (cases found) (auto simp: owner_or_default_def is_dict_def)

lemma store_memory_valid:
  assumes "unpack_args args kwargs = Inr (content, metadata, found)"
    and "metadata = PNone \<or> is_dict metadata"
  shows "store_memory args kwargs w =
    (let user_id = owner_or_default found;
         memory_id = new_memory_id user_id (now w);
         w2 = snd (datetime_now (snd (datetime_now w)));
         st = hset (''memory:'' @ memory_id)
                [(''user_id'', HVal user_id), (''content'', HVal content),
                 (''metadata'', HText (Json (py_or metadata (PDict [])))),
                 (''created_at'', HText (Txt (isoformat (now (snd (datetime_now w))))))] w2
     in case fst st of
          Inl e \<Rightarrow> (Inl e, logger (LogError ''Failed to store in Redis'' e) (snd st))
        | Inr u \<Rightarrow>
            (case fst (expire (''memory:'' @ memory_id) 3600 (snd st)) of
               Inl e \<Rightarrow> (Inl e, logger (LogError ''Failed to store in Redis'' e)
                                   (snd (expire (''memory:'' @ memory_id) 3600 (snd st))))
             | Inr u' \<Rightarrow> (Inr memory_id,
                           sync_to_ltm memory_id user_id content metadata
                             (snd (expire (''memory:'' @ memory_id) 3600 (snd st))))))"
  using assms
  by (auto simp: store_memory_def case_prod_unfold Let_def owner_or_default_def new_memory_id_def
      split: sum.splits)

lemma encode_mapping_ok:
  "encode_mapping [(''user_id'', HVal (PStr u)), (''content'', HVal (PStr c)),
                   (''metadata'', HText (Json j)), (''created_at'', HText (Txt t))]
   = Inr [(''user_id'', Txt u), (''content'', Txt c), (''metadata'', Json j), (''created_at'', Txt t)]"
  by (simp add: encode_def)

lemma store_memory_ok:
  assumes u: "unpack_args args kwargs = Inr (PStr c, metadata, found)"
    and m: "metadata = PNone \<or> is_dict metadata"
    and o: "\<not> is_dict found"
    and r: "redis_up 2 w"
    and l: "\<not> holds_list w (''memory:'' @ new_memory_id (owner_or_default found) (now w))"
  shows "fst (store_memory args kwargs w) = Inr (new_memory_id (owner_or_default found) (now w))
    \<and> (\<exists>h. map_of (redis_db (snd (store_memory args kwargs w)))
               (''memory:'' @ new_memory_id (owner_or_default found) (now w)) = Some (RHash h)
           \<and> map_of h ''user_id'' = Some (Txt (py_str (owner_or_default found)))
           \<and> map_of h ''content'' = Some (Txt c)
           \<and> map_of h ''metadata'' = Some (Json (py_or metadata (PDict []))))
    \<and> redis_faults (snd (store_memory args kwargs w)) = tl (tl (redis_faults w))
    \<and> decode_responses (snd (store_memory args kwargs w)) = decode_responses w"
proof -
  from owner_or_default_str[OF o] obtain s where s: "owner_or_default found = PStr s" by blast
  from r have r1: "\<not> fst (redis_begin w)" and r2: "\<not> fst (redis_begin (snd (redis_begin w)))"
    by (simp_all add: redis_up_Suc_iff numeral_2_eq_2)
  have b1: "\<And>w'. redis_faults w' = redis_faults w \<Longrightarrow> \<not> fst (redis_begin w')"
    using r1 by (simp add: fst_redis_begin)
  have b2: "\<And>w'. redis_faults w' = tl (redis_faults w) \<Longrightarrow> \<not> fst (redis_begin w')"
    using r2 by (simp add: fst_redis_begin redis_faults_begin)
  show ?thesis
    using l
    by (simp add: store_memory_valid[OF u m] s Let_def hset_eq expire_eq encode_def b1 b2
          redis_faults_begin holds_list_def update_conv' map_of_alist_merge map_add_def py_str_def
        split: option.splits rentry.splits)
qed

lemma hset_keeps [simp]:
  "decode_responses (snd (hset key mapping w)) = decode_responses w"
  "redis_faults (snd (hset key mapping w)) = tl (redis_faults w)"
  "collection (snd (hset key mapping w)) = collection w"
  "chroma_faults (snd (hset key mapping w)) = chroma_faults w"
  "log (snd (hset key mapping w)) = log w"
  by (simp_all add: hset_eq redis_faults_begin split: sum.splits option.splits rentry.splits)

lemma expire_keeps [simp]:
  "decode_responses (snd (expire key secs w)) = decode_responses w"
  "redis_db (snd (expire key secs w)) = redis_db w"
  "redis_faults (snd (expire key secs w)) = tl (redis_faults w)"
  "collection (snd (expire key secs w)) = collection w"
  "chroma_faults (snd (expire key secs w)) = chroma_faults w"
  "log (snd (expire key secs w)) = log w"
  by (simp_all add: expire_eq redis_faults_begin split: option.splits)

lemma get_memory_hit_bytes:
  assumes "redis_answers w" "\<not> decode_responses w"
    "map_of (redis_db w) (''memory:'' @ memory_id) = Some (RHash h)" "h \<noteq> []" "metadata_readable h"
  shows "fst (get_memory memory_id w) =
           Some [(''content'', PStr (field_text h ''content'')),
                 (''metadata'', field_json h),
                 (''created_at'', PStr (field_text h ''created_at'')),
                 (''source'', PStr ''short_term'')]"
  using assms
  by (simp add: get_memory_def hgetall_eq redis_answers_def as_reply_def short_term_record_bytes)

lemma store_then_get:
  assumes u: "unpack_args args kwargs = Inr (PStr c, metadata, found)"
    and m: "metadata = PNone \<or> is_dict metadata"
    and o: "\<not> is_dict found"
    and d: "\<not> decode_responses w"
    and r: "redis_up 3 w"
    and l: "\<not> holds_list w (''memory:'' @ new_memory_id (owner_or_default found) (now w))"
  shows "\<exists>memory_id r. fst (store_memory args kwargs w) = Inr memory_id
          \<and> fst (get_memory memory_id (snd (store_memory args kwargs w))) = Some r
          \<and> dict_get r ''content'' = PStr c
          \<and> dict_get r ''metadata'' = py_or metadata (PDict [])
          \<and> dict_get r ''source'' = PStr ''short_term''"
proof -
  let ?i = "new_memory_id (owner_or_default found) (now w)"
  let ?w = "snd (store_memory args kwargs w)"
  from r have r2: "redis_up 2 w" and r3: "\<not> (tl (tl (redis_faults w)) \<noteq> [] \<and> hd (tl (tl (redis_faults w))))"
    by (simp_all add: numeral_3_eq_3 numeral_2_eq_2 redis_up_Suc_iff fst_redis_begin redis_faults_begin)
  from store_memory_ok[OF u m o r2 l] obtain h where
    i: "fst (store_memory args kwargs w) = Inr ?i"
    and h: "map_of (redis_db ?w) (''memory:'' @ ?i) = Some (RHash h)"
      "map_of h ''content'' = Some (Txt c)"
      "map_of h ''metadata'' = Some (Json (py_or metadata (PDict [])))"
    and f: "redis_faults ?w = tl (tl (redis_faults w))"
    and dr: "decode_responses ?w = decode_responses w"
    by blast
  from h have ne: "h \<noteq> []" by auto
  from h have mr: "metadata_readable h" by (simp add: metadata_readable_def)
  from f r3 have ra: "redis_answers ?w" by (simp add: redis_answers_def fst_redis_begin)
  from d dr have nd: "\<not> decode_responses ?w" by simp
  from get_memory_hit_bytes[OF ra nd h(1) ne mr] h(2,3) i show ?thesis
    by (simp add: dict_get_def dict_get_default_def field_text_def field_json_def text_of_def)
qed

section \<open>Round trip\<close>

text \<open>
  C1. Round trip. For a content that is a \<open>str\<close>, a metadata that is \<open>None\<close> or a dict and
  an owner that is \<open>None\<close> or a \<open>str\<close>, in whichever of its argument shapes \<open>store_memory\<close>
  receives them: when Redis answers the three calls made (\<open>hset\<close>, \<open>expire\<close>, \<open>hgetall\<close>),
  the client returns bytes (the default of \<open>redis.from_url\<close>) and the key of the new
  memory does not hold a list, \<open>store_memory\<close> returns an id, and \<open>get_memory\<close> of that id
  returns a record whose content is the input and whose metadata has every key and
  value of the input. Nothing is assumed of Chroma.
\<close>

theorem store_get_round_trip:
  assumes "unpack_args args kwargs = Inr (PStr c, metadata, found)"
    and "metadata = PNone \<or> is_dict metadata"
    and "\<not> is_dict found"
    and "\<not> decode_responses w"
    and "redis_up 3 w"
    and "\<not> holds_list w (''memory:'' @ new_memory_id (owner_or_default found) (now w))"
  shows "\<exists>memory_id r. fst (store_memory args kwargs w) = Inr memory_id
          \<and> fst (get_memory memory_id (snd (store_memory args kwargs w))) = Some r
          \<and> dict_get r ''content'' = PStr c
          \<and> (\<forall>d k v. metadata = PDict d \<and> map_of d k = Some v
                \<longrightarrow> (\<exists>d'. dict_get r ''metadata'' = PDict d' \<and> map_of d' k = Some v))"
proof -
  from store_then_get[OF assms] obtain memory_id r where
    a: "fst (store_memory args kwargs w) = Inr memory_id"
      "fst (get_memory memory_id (snd (store_memory args kwargs w))) = Some r"
      "dict_get r ''content'' = PStr c"
      "dict_get r ''metadata'' = py_or metadata (PDict [])"
    by blast
  have "\<And>d k v. metadata = PDict d \<Longrightarrow> map_of d k = Some v \<Longrightarrow> py_or metadata (PDict []) = PDict d"
    by (auto simp: py_or_def)
  with a show ?thesis by auto
qed

theorem store_get_round_trip_witness:
  "\<exists>memory_id r.
     fst (store_memory [PStr ''First message about AI'', PDict [(''topic'', PStr ''ai'')]]
            [(''user_id'', PStr ''u1'')] empty_world) = Inr memory_id
     \<and> fst (get_memory memory_id
              (snd (store_memory [PStr ''First message about AI'', PDict [(''topic'', PStr ''ai'')]]
                      [(''user_id'', PStr ''u1'')] empty_world))) = Some r
     \<and> dict_get r ''content'' = PStr ''First message about AI''
     \<and> (\<exists>d'. dict_get r ''metadata'' = PDict d' \<and> map_of d' ''topic'' = Some (PStr ''ai''))"
proof -
  have "unpack_args [PStr ''First message about AI'', PDict [(''topic'', PStr ''ai'')]]
          [(''user_id'', PStr ''u1'')]
        = Inr (PStr ''First message about AI'', PDict [(''topic'', PStr ''ai'')], PStr ''u1'')"
    by (simp add: owner_from_def dict_get_def dict_get_default_def)
  moreover have "PDict [(''topic'', PStr ''ai'')] = PNone \<or> is_dict (PDict [(''topic'', PStr ''ai'')])"
    by (simp add: is_dict_def)
  moreover have "\<not> is_dict (PStr ''u1'')"
    by (simp add: is_dict_def)
  moreover have "\<not> decode_responses empty_world" "redis_up 3 empty_world"
    "\<not> holds_list empty_world (''memory:'' @ new_memory_id (owner_or_default (PStr ''u1'')) (now empty_world))"
    by (simp_all add: empty_world_def redis_up_def holds_list_def)
  ultimately obtain memory_id r where
    a: "fst (store_memory [PStr ''First message about AI'', PDict [(''topic'', PStr ''ai'')]]
            [(''user_id'', PStr ''u1'')] empty_world) = Inr memory_id"
      "fst (get_memory memory_id
              (snd (store_memory [PStr ''First message about AI'', PDict [(''topic'', PStr ''ai'')]]
                      [(''user_id'', PStr ''u1'')] empty_world))) = Some r"
      "dict_get r ''content'' = PStr ''First message about AI''"
    and b: "\<forall>d k v. PDict [(''topic'', PStr ''ai'')] = PDict d \<and> map_of d k = Some v
                \<longrightarrow> (\<exists>d'. dict_get r ''metadata'' = PDict d' \<and> map_of d' k = Some v)"
    using store_get_round_trip [of "[PStr ''First message about AI'', PDict [(''topic'', PStr ''ai'')]]"
        "[(''user_id'', PStr ''u1'')]" "''First message about AI''" "PDict [(''topic'', PStr ''ai'')]"
        "PStr ''u1''" empty_world]
    by blast
  from b [rule_format, of "[(''topic'', PStr ''ai'')]" "''topic''" "PStr ''ai''"]
  have "\<exists>d'. dict_get r ''metadata'' = PDict d' \<and> map_of d' ''topic'' = Some (PStr ''ai'')"
    by simp
  with a show ?thesis by blast
qed

section \<open>Error propagation\<close>

lemma store_memory_error_origin:
  assumes "fst (store_memory args kwargs w) = Inl e"
  shows "snd (store_memory args kwargs w) = w
         \<or> log (snd (store_memory args kwargs w)) = log w @ [LogError ''Failed to store in Redis'' e]"
proof (cases "unpack_args args kwargs")
  case (Inl x)
  then show ?thesis by (simp add: store_memory_def)
next
  case (Inr t)
  obtain content metadata found where t: "t = (content, metadata, found)" by (cases t) auto
  show ?thesis
  proof (cases "metadata = PNone \<or> is_dict metadata")
    case False
    with Inr t show ?thesis by (simp add: store_memory_def)
  next
    case True
    from Inr t have u: "unpack_args args kwargs = Inr (content, metadata, found)" by simp
    from assms show ?thesis
      by (auto simp: store_memory_valid[OF u True] Let_def split: sum.splits)
  qed
qed

lemma sync_to_ltm_down:
  assumes "\<not> chroma_answers w" "metadata = PNone \<or> is_dict metadata"
  shows "collection (sync_to_ltm memory_id user_id content metadata w) = collection w
     \<and> log (sync_to_ltm memory_id user_id content metadata w)
         = log w @ [LogError (''Failed to sync memory '' @ memory_id @ '' to LTM'') ConnectionError]"
  using assms
  by (cases metadata)
     (auto simp: sync_to_ltm_def case_prod_unfold chroma_add_eq chroma_answers_def chroma_begin_def
        py_or_def is_dict_def datetime_now_def split: list.splits)

lemma store_memory_ok_world:
  assumes u: "unpack_args args kwargs = Inr (PStr c, metadata, found)"
    and m: "metadata = PNone \<or> is_dict metadata"
    and o: "\<not> is_dict found"
    and r: "redis_up 2 w"
    and l: "\<not> holds_list w (''memory:'' @ new_memory_id (owner_or_default found) (now w))"
  shows "\<exists>w4. snd (store_memory args kwargs w)
            = sync_to_ltm (new_memory_id (owner_or_default found) (now w)) (owner_or_default found)
                (PStr c) metadata w4
          \<and> collection w4 = collection w \<and> chroma_faults w4 = chroma_faults w \<and> log w4 = log w"
proof -
  from owner_or_default_str[OF o] obtain s where s: "owner_or_default found = PStr s" by blast
  from r have r1: "\<not> fst (redis_begin w)" and r2: "\<not> fst (redis_begin (snd (redis_begin w)))"
    by (simp_all add: redis_up_Suc_iff numeral_2_eq_2)
  have b1: "\<And>w'. redis_faults w' = redis_faults w \<Longrightarrow> \<not> fst (redis_begin w')"
    using r1 by (simp add: fst_redis_begin)
  have b2: "\<And>w'. redis_faults w' = tl (redis_faults w) \<Longrightarrow> \<not> fst (redis_begin w')"
    using r2 by (simp add: fst_redis_begin redis_faults_begin)
  let ?key = "''memory:'' @ new_memory_id (owner_or_default found) (now w)"
  let ?st = "hset ?key
                [(''user_id'', HVal (owner_or_default found)), (''content'', HVal (PStr c)),
                 (''metadata'', HText (Json (py_or metadata (PDict [])))),
                 (''created_at'', HText (Txt (isoformat (now (snd (datetime_now w))))))]
                (snd (datetime_now (snd (datetime_now w))))"
  have st: "\<exists>u. fst ?st = Inr u"
    using l by (simp add: s hset_eq encode_def b1 holds_list_def split: option.splits rentry.splits)
  have ex: "\<exists>u. fst (expire ?key 3600 (snd ?st)) = Inr u"
    by (simp add: expire_eq b2 split: option.splits)
  from st ex have "snd (store_memory args kwargs w)
      = sync_to_ltm (new_memory_id (owner_or_default found) (now w)) (owner_or_default found)
          (PStr c) metadata (snd (expire ?key 3600 (snd ?st)))"
    by (auto simp: store_memory_valid[OF u m] Let_def)
  moreover have "collection (snd (expire ?key 3600 (snd ?st))) = collection w"
    "chroma_faults (snd (expire ?key 3600 (snd ?st))) = chroma_faults w"
    "log (snd (expire ?key 3600 (snd ?st))) = log w"
    by simp_all
  ultimately show ?thesis by blast
qed

text \<open>
  C2. Error propagation and tier independence. An exception leaves \<open>store_memory\<close> only
  before any effect (the arguments were refused: the world is unchanged) or from the
  Redis write, which logs \<open>Failed to store in Redis\<close> and raises again. For valid
  arguments and a Redis that answers, \<open>store_memory\<close> returns an id whatever Chroma
  does, and \<open>get_memory\<close> of the id returns the record from Redis, tagged
  \<open>short_term\<close>; when the Chroma call fails, the collection is left as it was and the
  failure is logged with the id.
\<close>

theorem store_memory_tier_independence:
  "(\<forall>e. fst (store_memory args kwargs w) = Inl e
      \<longrightarrow> snd (store_memory args kwargs w) = w
          \<or> log (snd (store_memory args kwargs w)) = log w @ [LogError ''Failed to store in Redis'' e])
   \<and> (unpack_args args kwargs = Inr (PStr c, metadata, found)
        \<and> (metadata = PNone \<or> is_dict metadata) \<and> \<not> is_dict found
        \<and> \<not> decode_responses w \<and> redis_up 3 w
        \<and> \<not> holds_list w (''memory:'' @ new_memory_id (owner_or_default found) (now w))
      \<longrightarrow> (\<exists>memory_id r. fst (store_memory args kwargs w) = Inr memory_id
             \<and> fst (get_memory memory_id (snd (store_memory args kwargs w))) = Some r
             \<and> dict_get r ''content'' = PStr c
             \<and> dict_get r ''source'' = PStr ''short_term''
             \<and> (\<not> chroma_answers w
                  \<longrightarrow> collection (snd (store_memory args kwargs w)) = collection w
                      \<and> log (snd (store_memory args kwargs w))
                          = log w @ [LogError (''Failed to sync memory '' @ memory_id @ '' to LTM'')
                                       ConnectionError])))"
proof (intro conjI allI impI)
  fix e assume "fst (store_memory args kwargs w) = Inl e"
  then show "snd (store_memory args kwargs w) = w
          \<or> log (snd (store_memory args kwargs w)) = log w @ [LogError ''Failed to store in Redis'' e]"
    by (rule store_memory_error_origin)
next
  assume a: "unpack_args args kwargs = Inr (PStr c, metadata, found)
        \<and> (metadata = PNone \<or> is_dict metadata) \<and> \<not> is_dict found
        \<and> \<not> decode_responses w \<and> redis_up 3 w
        \<and> \<not> holds_list w (''memory:'' @ new_memory_id (owner_or_default found) (now w))"
  then have u: "unpack_args args kwargs = Inr (PStr c, metadata, found)"
    and m: "metadata = PNone \<or> is_dict metadata" and o: "\<not> is_dict found"
    and d: "\<not> decode_responses w" and r: "redis_up 3 w"
    and l: "\<not> holds_list w (''memory:'' @ new_memory_id (owner_or_default found) (now w))"
    by simp_all
  from r have r2: "redis_up 2 w"
    by (simp add: numeral_3_eq_3 numeral_2_eq_2 redis_up_Suc_iff)
  from store_then_get[OF u m o d r l] obtain memory_id r where
    g: "fst (store_memory args kwargs w) = Inr memory_id"
      "fst (get_memory memory_id (snd (store_memory args kwargs w))) = Some r"
      "dict_get r ''content'' = PStr c" "dict_get r ''source'' = PStr ''short_term''"
    by blast
  from store_memory_ok[OF u m o r2 l] g(1)
  have i: "memory_id = new_memory_id (owner_or_default found) (now w)" by simp
  from store_memory_ok_world[OF u m o r2 l] obtain w4 where
    w4: "snd (store_memory args kwargs w)
            = sync_to_ltm (new_memory_id (owner_or_default found) (now w)) (owner_or_default found)
                (PStr c) metadata w4"
      "collection w4 = collection w" "chroma_faults w4 = chroma_faults w" "log w4 = log w"
    by blast
  have "\<not> chroma_answers w \<longrightarrow> collection (snd (store_memory args kwargs w)) = collection w
          \<and> log (snd (store_memory args kwargs w))
              = log w @ [LogError (''Failed to sync memory '' @ memory_id @ '' to LTM'') ConnectionError]"
  proof
    assume "\<not> chroma_answers w"
    with w4(3) have "\<not> chroma_answers w4"
      by (simp add: chroma_answers_def chroma_begin_def split: list.splits)
    from sync_to_ltm_down[OF this m] w4 i
    show "collection (snd (store_memory args kwargs w)) = collection w
          \<and> log (snd (store_memory args kwargs w))
              = log w @ [LogError (''Failed to sync memory '' @ memory_id @ '' to LTM'') ConnectionError]"
      by simp
  qed
  with g show "\<exists>memory_id r. fst (store_memory args kwargs w) = Inr memory_id
             \<and> fst (get_memory memory_id (snd (store_memory args kwargs w))) = Some r
             \<and> dict_get r ''content'' = PStr c
             \<and> dict_get r ''source'' = PStr ''short_term''
             \<and> (\<not> chroma_answers w
                  \<longrightarrow> collection (snd (store_memory args kwargs w)) = collection w
                      \<and> log (snd (store_memory args kwargs w))
                          = log w @ [LogError (''Failed to sync memory '' @ memory_id @ '' to LTM'')
                                       ConnectionError])"
    by blast
qed

theorem store_memory_tier_independence_witness:
  "\<exists>memory_id r.
     fst (store_memory [PStr ''First message about AI'', PNone] [(''user_id'', PStr ''u1'')]
            ltm_down_world) = Inr memory_id
     \<and> fst (get_memory memory_id
              (snd (store_memory [PStr ''First message about AI'', PNone] [(''user_id'', PStr ''u1'')]
                      ltm_down_world))) = Some r
     \<and> dict_get r ''content'' = PStr ''First message about AI''
     \<and> dict_get r ''source'' = PStr ''short_term''
     \<and> collection (snd (store_memory [PStr ''First message about AI'', PNone]
                          [(''user_id'', PStr ''u1'')] ltm_down_world)) = []
     \<and> log (snd (store_memory [PStr ''First message about AI'', PNone]
                          [(''user_id'', PStr ''u1'')] ltm_down_world))
         = [LogError (''Failed to sync memory '' @ memory_id @ '' to LTM'') ConnectionError]"
proof -
  have "unpack_args [PStr ''First message about AI'', PNone] [(''user_id'', PStr ''u1'')]
          = Inr (PStr ''First message about AI'', PNone, PStr ''u1'')
        \<and> (PNone = PNone \<or> is_dict PNone) \<and> \<not> is_dict (PStr ''u1'')
        \<and> \<not> decode_responses ltm_down_world \<and> redis_up 3 ltm_down_world
        \<and> \<not> holds_list ltm_down_world
              (''memory:'' @ new_memory_id (owner_or_default (PStr ''u1'')) (now ltm_down_world))"
    by (simp add: owner_from_def dict_get_def dict_get_default_def is_dict_def ltm_down_world_def
          empty_world_def redis_up_def holds_list_def)
  moreover have "\<not> chroma_answers ltm_down_world" "collection ltm_down_world = []"
    "log ltm_down_world = []"
    by (simp_all add: ltm_down_world_def empty_world_def chroma_answers_def chroma_begin_def)
  ultimately show ?thesis
    using store_memory_tier_independence
      [of "[PStr ''First message about AI'', PNone]" "[(''user_id'', PStr ''u1'')]" ltm_down_world
        "''First message about AI''" PNone "PStr ''u1''"]
    by auto
qed

section \<open>Validation\<close>

lemma digit_chars:
  "digit 0 = CHR ''0''" "digit 1 = CHR ''1''" "digit 2 = CHR ''2''" "digit 3 = CHR ''3''"
  "digit 4 = CHR ''4''" "digit 5 = CHR ''5''" "digit 6 = CHR ''6''" "digit 7 = CHR ''7''"
  "digit 8 = CHR ''8''" "digit 9 = CHR ''9''" "digit (Suc 0) = CHR ''1''"
  by (simp_all add: digit_def char_of_def bit_0 bit_Suc)

lemma isoformat_t0: "isoformat t0 = ''2024-01-02T03:04:05.000006''"
  by (simp add: isoformat_def pad2_def pad4_def pad6_def digit_chars t0_def)


section \<open>Timestamps and ids\<close>

lemma digit_val_digit: "n < 10 \<Longrightarrow> digit_val (digit n) = Some n"
  by (simp add: digit_val_def digit_def Let_def)

lemma digits_val_append:
  "digits_val acc (xs @ ys) = (case digits_val acc xs of None \<Rightarrow> None | Some a \<Rightarrow> digits_val a ys)"
  by (induction xs arbitrary: acc) (auto split: option.splits)

lemma digits_val_pad2: "digits_val acc (pad2 n) = Some (acc * 100 + n mod 100)"
proof -
  have "n mod 100 = 10 * (n div 10 mod 10) + n mod 10"
    using mod_mult2_eq [of n 10 10] by simp
  then show ?thesis by (simp add: pad2_def digit_val_digit)
qed

lemma digits_val_pad4: "digits_val acc (pad4 n) = Some (acc * 10000 + n mod 10000)"
proof -
  have "n mod 10000 = 100 * (n div 100 mod 100) + n mod 100"
    using mod_mult2_eq [of n 100 100] by simp
  then show ?thesis by (simp add: pad4_def digits_val_append digits_val_pad2)
qed

lemma digits_val_pad6: "digits_val acc (pad6 n) = Some (acc * 1000000 + n mod 1000000)"
proof -
  have "n mod 1000000 = 10000 * (n div 10000 mod 100) + n mod 10000"
    using mod_mult2_eq [of n 10000 100] by simp
  then show ?thesis by (simp add: pad6_def digits_val_append digits_val_pad2 digits_val_pad4)
qed

lemma length_pad [simp]: "length (pad2 n) = 2" "length (pad4 n) = 4" "length (pad6 n) = 6"
  by (simp_all add: pad2_def pad4_def pad6_def)



lemma shape:
  assumes "length a = 4" "length b = 2" "length c = 2" "length e = 2" "length f = 2" "length g = 2"
  shows "take 4 (a @ ''-'' @ b @ ''-'' @ c @ ''T'' @ e @ '':'' @ f @ '':'' @ g @ rest) = a"
    and "take 2 (drop 5 (a @ ''-'' @ b @ ''-'' @ c @ ''T'' @ e @ '':'' @ f @ '':'' @ g @ rest)) = b"
    and "take 2 (drop 8 (a @ ''-'' @ b @ ''-'' @ c @ ''T'' @ e @ '':'' @ f @ '':'' @ g @ rest)) = c"
    and "take 2 (drop 11 (a @ ''-'' @ b @ ''-'' @ c @ ''T'' @ e @ '':'' @ f @ '':'' @ g @ rest)) = e"
    and "take 2 (drop 14 (a @ ''-'' @ b @ ''-'' @ c @ ''T'' @ e @ '':'' @ f @ '':'' @ g @ rest)) = f"
    and "take 2 (drop 17 (a @ ''-'' @ b @ ''-'' @ c @ ''T'' @ e @ '':'' @ f @ '':'' @ g @ rest)) = g"
    and "drop 19 (a @ ''-'' @ b @ ''-'' @ c @ ''T'' @ e @ '':'' @ f @ '':'' @ g @ rest) = rest"
    and "(a @ ''-'' @ b @ ''-'' @ c @ ''T'' @ e @ '':'' @ f @ '':'' @ g @ rest) ! 4 = CHR ''-''"
    and "(a @ ''-'' @ b @ ''-'' @ c @ ''T'' @ e @ '':'' @ f @ '':'' @ g @ rest) ! 7 = CHR ''-''"
    and "(a @ ''-'' @ b @ ''-'' @ c @ ''T'' @ e @ '':'' @ f @ '':'' @ g @ rest) ! 10 = CHR ''T''"
    and "(a @ ''-'' @ b @ ''-'' @ c @ ''T'' @ e @ '':'' @ f @ '':'' @ g @ rest) ! 13 = CHR '':''"
    and "(a @ ''-'' @ b @ ''-'' @ c @ ''T'' @ e @ '':'' @ f @ '':'' @ g @ rest) ! 16 = CHR '':''"
    and "length (a @ ''-'' @ b @ ''-'' @ c @ ''T'' @ e @ '':'' @ f @ '':'' @ g @ rest) = 19 + length rest"
  using assms by (simp_all add: nth_append)


lemma fromisoformat_isoformat:
  assumes "valid_datetime d"
  shows "fromisoformat (isoformat d) = Some d"
proof -
  define rest where "rest = (if microsecond d = 0 then [] else ''.'' @ pad6 (microsecond d))"
  define s where "s = pad4 (year d) @ ''-'' @ pad2 (month d) @ ''-'' @ pad2 (day d) @ ''T''
     @ pad2 (hour d) @ '':'' @ pad2 (minute d) @ '':'' @ pad2 (second d) @ rest"
  have iso: "isoformat d = s" by (simp add: isoformat_def s_def rest_def)
  note sh = shape [of "pad4 (year d)" "pad2 (month d)" "pad2 (day d)" "pad2 (hour d)"
      "pad2 (minute d)" "pad2 (second d)" rest, OF length_pad(2) length_pad(1) length_pad(1)
      length_pad(1) length_pad(1) length_pad(1), folded s_def]
  from assms have b: "year d mod 10000 = year d" "month d mod 100 = month d" "day d mod 100 = day d"
    "hour d mod 100 = hour d" "minute d mod 100 = minute d" "second d mod 100 = second d"
    "microsecond d mod 1000000 = microsecond d"
    by (auto simp: valid_datetime_def days_in_month_def split: if_splits)
  have len: "length s = 19 \<or> length s = 26"
    by (simp add: sh(13) rest_def)
  have dot: "length s = 19 \<or> s ! 19 = CHR ''.''"
  proof (cases "microsecond d = 0")
    case True
    then show ?thesis by (simp add: sh(13) rest_def)
  next
    case False
    have "drop 19 s ! 0 = s ! (19 + 0)"
      by (rule nth_drop) (simp add: sh(13))
    with False show ?thesis by (simp add: sh(7) rest_def)
  qed
  have us: "digits_val 0 (drop 20 s) = Some (microsecond d)"
  proof -
    have "drop 1 (drop 19 s) = drop 20 s" by simp
    then have "drop 20 s = drop 1 rest" by (simp only: sh(7))
    then have "drop 20 s = (if microsecond d = 0 then [] else pad6 (microsecond d))"
      by (simp add: rest_def)
    then show ?thesis by (simp add: digits_val_pad6 b)
  qed
  have r: "\<lparr>year = year d, month = month d, day = day d, hour = hour d, minute = minute d,
               second = second d, microsecond = microsecond d\<rparr> = d"
    by simp
  have c1: "(length s = 19 \<or> length s = 26)
         \<and> s ! 4 = CHR ''-'' \<and> s ! 7 = CHR ''-'' \<and> s ! 10 = CHR ''T''
         \<and> s ! 13 = CHR '':'' \<and> s ! 16 = CHR '':''
         \<and> (length s = 19 \<or> s ! 19 = CHR ''.'')"
    using len dot sh(8-12) by blast
  have c2: "digits_val 0 (take 4 s) = Some (year d)"
    "digits_val 0 (take 2 (drop 5 s)) = Some (month d)"
    "digits_val 0 (take 2 (drop 8 s)) = Some (day d)"
    "digits_val 0 (take 2 (drop 11 s)) = Some (hour d)"
    "digits_val 0 (take 2 (drop 14 s)) = Some (minute d)"
    "digits_val 0 (take 2 (drop 17 s)) = Some (second d)"
    by (simp_all only: sh(1-6) digits_val_pad2 digits_val_pad4 b mult_zero_left add_0)
  have "fromisoformat s = Some d"
    unfolding fromisoformat_def
    by (simp only: c1 c2 us r Let_def assms prod.case option.case) simp
  with iso show ?thesis by simp
qed

lemma isoformat_inj:
  assumes "valid_datetime a" "valid_datetime b" "isoformat a = isoformat b"
  shows "a = b"
proof -
  have "Some a = fromisoformat (isoformat a)"
    using assms(1) by (simp only: fromisoformat_isoformat)
  also have "\<dots> = fromisoformat (isoformat b)"
    by (simp only: assms(3))
  also have "\<dots> = Some b"
    using assms(2) by (simp only: fromisoformat_isoformat)
  finally show ?thesis by simp
qed

lemma store_memory_id:
  assumes "fst (store_memory args kwargs w) = Inr i"
  shows "\<exists>c m found. unpack_args args kwargs = Inr (c, m, found)
           \<and> i = new_memory_id (owner_or_default found) (now w)"
proof (cases "unpack_args args kwargs")
  case (Inl e)
  with assms show ?thesis by (simp add: store_memory_def)
next
  case (Inr t)
  obtain c m found where t: "t = (c, m, found)" by (cases t) auto
  show ?thesis
  proof (cases "m = PNone \<or> is_dict m")
    case False
    with Inr t assms show ?thesis by (simp add: store_memory_def)
  next
    case True
    from Inr t have u: "unpack_args args kwargs = Inr (c, m, found)" by simp
    from assms have "i = new_memory_id (owner_or_default found) (now w)"
      by (auto simp: store_memory_valid[OF u True] Let_def split: sum.splits)
    with u show ?thesis by blast
  qed
qed

lemma ShortTermMemory_store_id:
  "fst (ShortTermMemory_store user_id content metadata expires_in w) = Inr j
     \<Longrightarrow> j = ''stm:'' @ py_str user_id @ '':'' @ isoformat (now w)"
  by (auto simp: ShortTermMemory_store_def case_prod_unfold Let_def split: if_splits sum.splits)

text \<open>
  C5, as stated, fails: two \<open>store_memory\<close> calls of one owner whose clock readings
  coincide return the same id.
\<close>

theorem store_memory_id_collision:
  "fst (store_memory [PStr ''First message about AI'', PNone] [(''user_id'', PStr ''u1'')] empty_world)
     = Inr ''u1_2024-01-02T03:04:05.000006''
   \<and> fst (store_memory [PStr ''Second message about ML'', PNone] [(''user_id'', PStr ''u1'')]
          (snd (store_memory [PStr ''First message about AI'', PNone] [(''user_id'', PStr ''u1'')]
                  empty_world)))
     = Inr ''u1_2024-01-02T03:04:05.000006''"
  by (simp add: store_memory_def owner_from_def dict_get_def dict_get_default_def is_dict_def
        empty_world_def datetime_now_def hset_def redis_begin_def encode_def expire_def
        py_str_def py_or_def isoformat_t0 Let_def sync_to_ltm_def chroma_add_def chroma_begin_def
        valid_metadata_def alist_merge_def logger_def)

lemma new_memory_id_inj:
  assumes "valid_datetime t1" "valid_datetime t2" "t1 \<noteq> t2"
  shows "new_memory_id user_id t1 \<noteq> new_memory_id user_id t2"
    and "''stm:'' @ py_str user_id @ '':'' @ isoformat t1 \<noteq> ''stm:'' @ py_str user_id @ '':'' @ isoformat t2"
  using assms isoformat_inj [of t1 t2] by (auto simp: new_memory_id_def)

text \<open>
  C5, amended. The id \<open>store_memory\<close> returns is the owner it settled on, an underscore
  and \<open>isoformat\<close> of the clock reading taken for the id (\<open>ShortTermMemory.store\<close>:
  \<open>stm:\<close>, the owner, a colon and the reading): it depends on the owner and that
  instant alone. For one owner, two ids formed from different instants are different.
\<close>

theorem memory_id_deterministic:
  "(fst (store_memory args kwargs w) = Inr i
      \<longrightarrow> (\<exists>c m found. unpack_args args kwargs = Inr (c, m, found)
             \<and> i = new_memory_id (owner_or_default found) (now w)))
   \<and> (fst (ShortTermMemory_store user_id content metadata expires_in w) = Inr j
      \<longrightarrow> j = ''stm:'' @ py_str user_id @ '':'' @ isoformat (now w))
   \<and> (valid_datetime t1 \<and> valid_datetime t2 \<and> t1 \<noteq> t2
      \<longrightarrow> new_memory_id owner t1 \<noteq> new_memory_id owner t2
          \<and> ''stm:'' @ py_str owner @ '':'' @ isoformat t1 \<noteq> ''stm:'' @ py_str owner @ '':'' @ isoformat t2)"
  using store_memory_id [of args kwargs w i]
    ShortTermMemory_store_id [of user_id content metadata expires_in w j]
    new_memory_id_inj [of t1 t2 owner]
  by blast

theorem memory_id_deterministic_witness:
  "fst (store_memory [PStr ''First message about AI'', PNone] [(''user_id'', PStr ''u1'')] empty_world)
     = Inr (new_memory_id (PStr ''u1'') t0)
   \<and> fst (ShortTermMemory_store (PStr ''u1'') (PStr ''First message about AI'') PNone None empty_world)
     = Inr (''stm:u1:'' @ isoformat t0)
   \<and> new_memory_id (PStr ''u1'') t0 \<noteq> new_memory_id (PStr ''u1'') (t0\<lparr>microsecond := 7\<rparr>)"
proof -
  have a: "fst (store_memory [PStr ''First message about AI'', PNone] [(''user_id'', PStr ''u1'')]
              empty_world) = Inr ''u1_2024-01-02T03:04:05.000006''"
    by (simp add: store_memory_def owner_from_def dict_get_def dict_get_default_def is_dict_def
        empty_world_def datetime_now_def hset_def redis_begin_def encode_def expire_def
        py_str_def py_or_def isoformat_t0 Let_def)
  have b: "fst (ShortTermMemory_store (PStr ''u1'') (PStr ''First message about AI'') PNone None
              empty_world) = Inr ''stm:u1:2024-01-02T03:04:05.000006''"
    by (simp add: ShortTermMemory_store_def empty_world_def datetime_now_def hset_def
        redis_begin_def encode_def lpush_def ltrim_def redis_range_def py_str_def py_or_def
        isoformat_t0 Let_def)
  have v: "valid_datetime t0" "valid_datetime (t0\<lparr>microsecond := 7\<rparr>)" "t0 \<noteq> t0\<lparr>microsecond := 7\<rparr>"
    by (simp_all add: valid_datetime_def days_in_month_def t0_def)
  have n: "now empty_world = t0" by (simp add: empty_world_def)
  from memory_id_deterministic
      [of "[PStr ''First message about AI'', PNone]" "[(''user_id'', PStr ''u1'')]" empty_world
        "''u1_2024-01-02T03:04:05.000006''" "PStr ''u1''" "PStr ''First message about AI''" PNone None
        "''stm:u1:2024-01-02T03:04:05.000006''" t0 "t0\<lparr>microsecond := 7\<rparr>" "PStr ''u1''"]
    a b v n
  show ?thesis
    by (simp add: new_memory_id_def py_str_def isoformat_t0)
qed






section \<open>Clearing the short-term store\<close>





lemma redis_del_keeps [simp]:
  "redis_faults (redis_del ks w) = redis_faults w"
  "log (redis_del ks w) = log w"
  "collection (redis_del ks w) = collection w"
  by (simp_all add: redis_del_def)


lemma redis_up_tl:
  "redis_up (Suc n) w \<Longrightarrow> redis_faults w' = tl (redis_faults w) \<Longrightarrow> redis_up n w'"
  by (cases "redis_faults w") (auto simp: redis_up_def)












section \<open>Caller metadata in long-term records\<close>

lemma valid_metadata_update:
  "valid_metadata m \<Longrightarrow> valid_metadata (AList.update k (PStr s) m)"
  by (induction m) (auto simp: valid_metadata_def)

lemma valid_metadata_update':
  "valid_metadata m \<Longrightarrow> valid_metadata [(k, v)] \<Longrightarrow> valid_metadata (AList.update k v m)"
  by (induction m) (auto simp: valid_metadata_def)

lemma valid_metadata_merge:
  "valid_metadata a \<Longrightarrow> valid_metadata b \<Longrightarrow> valid_metadata (alist_merge a b)"
proof (induction b arbitrary: a)
  case Nil
  then show ?case by (simp add: alist_merge_def)
next
  case (Cons kv b)
  from Cons.prems have "valid_metadata [(fst kv, snd kv)]" "valid_metadata b"
    by (simp_all add: valid_metadata_def)
  with Cons.prems(1) have "valid_metadata (AList.update (fst kv) (snd kv) a)"
    by (simp add: valid_metadata_update')
  with Cons.IH \<open>valid_metadata b\<close> have "valid_metadata (alist_merge (AList.update (fst kv) (snd kv) a) b)"
    by simp
  then show ?case by (simp add: alist_merge_def)
qed

lemma sync_to_ltm_ok:
  assumes "chroma_answers w" "distinct (map fst md)" "valid_metadata md"
    "memory_id \<notin> fst ` set (collection w)"
  shows "\<exists>m. collection (sync_to_ltm memory_id (PStr u) (PStr c) (PDict md) w)
                = collection w @ [(memory_id, c, m)]
              \<and> map_of m ''user_id'' = Some (overriding md ''user_id'' (PStr u))
              \<and> map_of m ''created_at'' = Some (PStr (isoformat (now w)))"
proof -
  let ?m = "AList.update ''created_at'' (PStr (isoformat (now w))) (alist_merge [(''user_id'', PStr u)] md)"
  have "valid_metadata [(''user_id'', PStr u)]" by (simp add: valid_metadata_def)
  then have v: "valid_metadata ?m"
    using assms(3) by (intro valid_metadata_update valid_metadata_merge)
  have p: "py_or (PDict md) (PDict []) = PDict md" by (cases md) (simp_all add: py_or_def)
  have c: "collection (sync_to_ltm memory_id (PStr u) (PStr c) (PDict md) w)
             = collection w @ [(memory_id, c, ?m)]"
    using assms(1,4) v
    by (simp add: sync_to_ltm_def case_prod_unfold p chroma_add_eq chroma_answers_def chroma_begin_def
          datetime_now_def split: list.splits)
  have "map_of ?m ''user_id'' = Some (overriding md ''user_id'' (PStr u))"
    using assms(2)
    by (simp add: update_conv' map_of_alist_merge map_add_def overriding_def split: option.splits)
  moreover have "map_of ?m ''created_at'' = Some (PStr (isoformat (now w)))"
    by (simp add: update_conv')
  ultimately show ?thesis using c by blast
qed

lemma LongTermMemory_store_ok:
  assumes "u \<noteq> []" "c \<noteq> []" "chroma_answers w" "distinct (map fst md)" "valid_metadata md"
    "(''ltm:'' @ u @ '':'' @ isoformat (now w)) \<notin> fst ` set (collection w)"
  shows "\<exists>m. fst (LongTermMemory_store (PStr u) (PStr c) (PDict md) w)
                = Inr (''ltm:'' @ u @ '':'' @ isoformat (now w))
              \<and> collection (snd (LongTermMemory_store (PStr u) (PStr c) (PDict md) w))
                = collection w @ [(''ltm:'' @ u @ '':'' @ isoformat (now w), c, m)]
              \<and> map_of m ''user_id'' = Some (overriding md ''user_id'' (PStr u))
              \<and> map_of m ''created_at''
                  = Some (overriding md ''created_at'' (PStr (isoformat (now (snd (datetime_now w))))))"
proof -
  let ?t = "PStr (isoformat (now (snd (datetime_now w))))"
  let ?m = "alist_merge [(''user_id'', PStr u), (''created_at'', ?t)] md"
  have "valid_metadata [(''user_id'', PStr u), (''created_at'', ?t)]" by (simp add: valid_metadata_def)
  then have v: "valid_metadata ?m"
    using assms(5) by (intro valid_metadata_merge)
  have p: "py_or (PDict md) (PDict []) = PDict md" by (cases md) (simp_all add: py_or_def)
  have c: "fst (LongTermMemory_store (PStr u) (PStr c) (PDict md) w)
                = Inr (''ltm:'' @ u @ '':'' @ isoformat (now w))
           \<and> collection (snd (LongTermMemory_store (PStr u) (PStr c) (PDict md) w))
                = collection w @ [(''ltm:'' @ u @ '':'' @ isoformat (now w), c, ?m)]"
    using assms(1,2,3,6) v
    by (simp add: LongTermMemory_store_def case_prod_unfold Let_def p chroma_add_eq chroma_answers_def
          chroma_begin_def py_str_def datetime_now_def split: list.splits)
  have "map_of ?m ''user_id'' = Some (overriding md ''user_id'' (PStr u))"
    "map_of ?m ''created_at'' = Some (overriding md ''created_at'' ?t)"
    using assms(4)
    by (simp_all add: map_of_alist_merge map_add_def overriding_def split: option.splits)
  with c show ?thesis by blast
qed

lemma chroma_get_where_eq:
  "chroma_get_where k v None w =
     (if fst (chroma_begin w) then (Inl ConnectionError, snd (chroma_begin w))
      else (Inr (filter (where_eq k v) (collection w)), snd (chroma_begin w)))"
  by (auto simp: chroma_get_where_def chroma_begin_def split: list.splits)

lemma chroma_delete_ids_eq:
  "chroma_delete_ids ids w =
     (if fst (chroma_begin w) then (Inl ConnectionError, snd (chroma_begin w))
      else (Inr (), (snd (chroma_begin w))\<lparr>collection := filter (\<lambda>r. fst r \<notin> set ids) (collection w)\<rparr>))"
  by (auto simp: chroma_delete_ids_def chroma_begin_def split: list.splits)

lemma chroma_up_Suc_iff:
  "chroma_up (Suc n) w = (\<not> fst (chroma_begin w) \<and> chroma_up n (snd (chroma_begin w)))"
  by (auto simp: chroma_up_def chroma_begin_def split: list.splits)

lemma purge_collection:
  assumes "chroma_up 2 w"
  shows "fst (purge user_id w) = Inr ()
     \<and> collection (snd (purge user_id w))
         = filter (\<lambda>r. fst r \<notin> fst ` set (filter (where_eq ''user_id'' user_id) (collection w)))
             (collection w)"
proof -
  from assms have a: "\<not> fst (chroma_begin w)" "\<not> fst (chroma_begin (snd (chroma_begin w)))"
    by (simp_all add: numeral_2_eq_2 chroma_up_Suc_iff)
  show ?thesis
  proof (cases "filter (where_eq ''user_id'' user_id) (collection w) = []")
    case True
    then have "filter (\<lambda>r. fst r \<notin> fst ` set (filter (where_eq ''user_id'' user_id) (collection w)))
             (collection w) = collection w"
      by simp
    with True a show ?thesis
      by (simp add: purge_def case_prod_unfold chroma_get_where_eq)
  next
    case False
    with a show ?thesis
      by (simp add: purge_def case_prod_unfold chroma_get_where_eq chroma_delete_ids_eq)
  qed
qed

lemma purge_attribution:
  assumes r: "r \<in> set (collection w)" and b: "map_of (snd (snd r)) ''user_id'' = Some (PStr b)"
    and ab: "a \<noteq> b" and u: "\<forall>x \<in> set (collection w). fst x = fst r \<longrightarrow> x = r"
    and c: "chroma_up 2 w"
  shows "r \<in> set (collection (snd (purge a w)))" and "r \<notin> set (collection (snd (purge b w)))"
proof -
  from b have wb: "where_eq ''user_id'' b r" by (simp add: where_eq_def)
  from b ab have wa: "\<not> where_eq ''user_id'' a r" by (simp add: where_eq_def)
  have "fst r \<notin> fst ` set (filter (where_eq ''user_id'' a) (collection w))"
  proof
    assume "fst r \<in> fst ` set (filter (where_eq ''user_id'' a) (collection w))"
    then obtain x where "x \<in> set (collection w)" "where_eq ''user_id'' a x" "fst x = fst r" by auto
    with u wa show False by auto
  qed
  with r show "r \<in> set (collection (snd (purge a w)))"
    by (simp add: purge_collection [OF c])
  from r wb have "fst r \<in> fst ` set (filter (where_eq ''user_id'' b) (collection w))" by auto
  then show "r \<notin> set (collection (snd (purge b w)))"
    by (simp add: purge_collection [OF c])
qed

lemma search_attribution:
  assumes b: "map_of (snd (snd r)) ''user_id'' = Some (PStr b)"
    and ab: "a \<noteq> b" and u: "\<forall>x \<in> set (collection w). fst x = fst r \<longrightarrow> x = r"
  shows "\<forall>x \<in> set (fst (search_memories dist a q limit w)). dict_get x ''id'' \<noteq> PStr (fst r)"
proof (cases "chroma_query dist q limit ''user_id'' a w")
  case (Pair res w1)
  show ?thesis
  proof (cases res)
    case (Inl e)
    with Pair show ?thesis by (simp add: search_memories_def)
  next
    case (Inr rs)
    with Pair have "fst (chroma_query dist q limit ''user_id'' a w) = Inr rs" by simp
    from chroma_query_subset [OF this]
    have s: "\<forall>y \<in> set rs. y \<in> set (collection w) \<and> where_eq ''user_id'' a y" by auto
    have "fst y \<noteq> fst r" if "y \<in> set rs" for y
    proof
      assume "fst y = fst r"
      with s that u have "y = r" by auto
      with s that have "where_eq ''user_id'' a r" by auto
      with b ab show False by (simp add: where_eq_def)
    qed
    with Pair Inr show ?thesis
      by (auto simp: search_memories_def dict_get_def dict_get_default_def)
  qed
qed

lemma store_memory_ltm_record:
  assumes u: "unpack_args args kwargs = Inr (PStr c, PDict md, found)"
    and o: "\<not> is_dict found"
    and r: "redis_up 2 w"
    and l: "\<not> holds_list w (''memory:'' @ new_memory_id (owner_or_default found) (now w))"
    and ca: "chroma_answers w"
    and d: "distinct (map fst md)"
    and v: "valid_metadata md"
    and f: "new_memory_id (owner_or_default found) (now w) \<notin> fst ` set (collection w)"
  shows "\<exists>m. collection (snd (store_memory args kwargs w))
                = collection w @ [(new_memory_id (owner_or_default found) (now w), c, m)]
              \<and> map_of m ''user_id'' = Some (overriding md ''user_id'' (owner_or_default found))"
proof -
  have m: "PDict md = PNone \<or> is_dict (PDict md)" by (simp add: is_dict_def)
  from owner_or_default_str [OF o] obtain s where s: "owner_or_default found = PStr s" by blast
  from store_memory_ok_world [OF u m o r l] obtain w4 where
    w4: "snd (store_memory args kwargs w)
            = sync_to_ltm (new_memory_id (owner_or_default found) (now w)) (owner_or_default found)
                (PStr c) (PDict md) w4"
      "collection w4 = collection w" "chroma_faults w4 = chroma_faults w"
    by blast
  from ca w4(3) have ca4: "chroma_answers w4"
    by (simp add: chroma_answers_def chroma_begin_def split: list.splits)
  from f w4(2) have f4: "new_memory_id (owner_or_default found) (now w) \<notin> fst ` set (collection w4)"
    by simp
  from sync_to_ltm_ok [OF ca4 d v f4, of s c] w4(1,2) s show ?thesis
    by auto
qed

lemma store_memory_default_owner:
  assumes u: "unpack_args args kwargs = Inr (PStr c, metadata, found)"
    and m: "metadata = PNone \<or> is_dict metadata"
    and t: "\<not> truthy found"
    and r: "redis_up 2 w"
    and l: "\<not> holds_list w (''memory:'' @ new_memory_id (PStr ''test_user'') (now w))"
  shows "fst (store_memory args kwargs w) = Inr (new_memory_id (PStr ''test_user'') (now w))
     \<and> (\<exists>h. map_of (redis_db (snd (store_memory args kwargs w)))
                 (''memory:'' @ new_memory_id (PStr ''test_user'') (now w)) = Some (RHash h)
             \<and> map_of h ''user_id'' = Some (Txt ''test_user''))"
proof -
  from t have d: "owner_or_default found = PStr ''test_user''" by (simp add: owner_or_default_def)
  from t have o: "\<not> is_dict found \<or> found = PDict []" by (cases found) (simp_all add: is_dict_def)
  show ?thesis
  proof (cases "is_dict found")
    case False
    from store_memory_ok [OF u m False r] l d show ?thesis
      by (auto simp: py_str_def)
  next
    case True
    with t have e: "found = PDict []" by (cases found) (simp_all add: is_dict_def)
    from r have r1: "\<not> fst (redis_begin w)" and r2: "\<not> fst (redis_begin (snd (redis_begin w)))"
      by (simp_all add: redis_up_Suc_iff numeral_2_eq_2)
    have b1: "\<And>w'. redis_faults w' = redis_faults w \<Longrightarrow> \<not> fst (redis_begin w')"
      using r1 by (simp add: fst_redis_begin)
    have b2: "\<And>w'. redis_faults w' = tl (redis_faults w) \<Longrightarrow> \<not> fst (redis_begin w')"
      using r2 by (simp add: fst_redis_begin redis_faults_begin)
    show ?thesis
      using l
      by (simp add: store_memory_valid [OF u m] d Let_def hset_eq expire_eq encode_def b1 b2
            redis_faults_begin holds_list_def update_conv' map_of_alist_merge map_add_def py_str_def
          split: option.splits rentry.splits)
  qed
qed

lemma sync_to_ltm_faults:
  "chroma_faults (sync_to_ltm memory_id user_id content (PDict md) w) = tl (chroma_faults w)"
  by (cases md; cases content)
     (auto simp: sync_to_ltm_def case_prod_unfold chroma_add_def chroma_begin_def
        py_or_def datetime_now_def logger_def split: list.splits bool.splits)

lemma store_memory_ltm_faults:
  assumes u: "unpack_args args kwargs = Inr (PStr c, PDict md, found)"
    and o: "\<not> is_dict found"
    and r: "redis_up 2 w"
    and l: "\<not> holds_list w (''memory:'' @ new_memory_id (owner_or_default found) (now w))"
  shows "chroma_faults (snd (store_memory args kwargs w)) = tl (chroma_faults w)"
proof -
  have m: "PDict md = PNone \<or> is_dict (PDict md)" by (simp add: is_dict_def)
  from store_memory_ok_world [OF u m o r l] obtain w4 where
    w4: "snd (store_memory args kwargs w)
            = sync_to_ltm (new_memory_id (owner_or_default found) (now w)) (owner_or_default found)
                (PStr c) (PDict md) w4"
      "chroma_faults w4 = chroma_faults w"
    by blast
  then show ?thesis by (simp add: sync_to_ltm_faults)
qed

lemma search_finds:
  assumes r: "r \<in> set (collection w)" and b: "map_of (snd (snd r)) ''user_id'' = Some (PStr b)"
    and c: "chroma_answers w" and n: "int (length (collection w)) \<le> limit"
  shows "PStr (fst r) \<in> (\<lambda>x. dict_get x ''id'') ` set (fst (search_memories dist b q limit w))"
proof -
  from r have "0 < length (collection w)" by (cases "collection w") auto
  with n have p: "\<not> limit \<le> 0" by linarith
  have "length (filter (where_eq ''user_id'' b) (collection w)) \<le> length (collection w)" by simp
  moreover from n have "length (collection w) \<le> nat limit" by linarith
  ultimately have t: "length (filter (where_eq ''user_id'' b) (collection w)) \<le> nat limit"
    by (rule le_trans)
  from c have q: "fst (chroma_query dist q limit ''user_id'' b w)
      = Inr (sort_key (\<lambda>r. dist q (fst (snd r))) (filter (where_eq ''user_id'' b) (collection w)))"
    using p t
    by (auto simp: chroma_query_def chroma_answers_def chroma_begin_def split: list.splits)
  from r b have m: "r \<in> set (sort_key (\<lambda>r. dist q (fst (snd r))) (filter (where_eq ''user_id'' b) (collection w)))"
    by (simp add: where_eq_def)
  obtain res w1 where e: "chroma_query dist q limit ''user_id'' b w = (res, w1)"
    by (cases "chroma_query dist q limit ''user_id'' b w")
  with q have res: "res = Inr (sort_key (\<lambda>r. dist q (fst (snd r))) (filter (where_eq ''user_id'' b) (collection w)))"
    by simp
  have g: "\<And>x. dict_get [(''id'', PStr (fst x)), (''content'', PStr (fst (snd x))),
                  (''metadata'', chroma_meta (snd (snd x)))] ''id'' = PStr (fst x)"
    by (simp add: dict_get_def dict_get_default_def)
  have "(\<lambda>x. dict_get x ''id'') ` set (fst (search_memories dist b q limit w))
        = (\<lambda>x. PStr (fst x)) ` set (sort_key (\<lambda>r. dist q (fst (snd r)))
                                       (filter (where_eq ''user_id'' b) (collection w)))"
    unfolding search_memories_def e res
    by (simp add: image_image g del: set_sort set_filter)
  with m show ?thesis by blast
qed

lemma chroma_up_answers: "chroma_up 2 w \<Longrightarrow> chroma_answers w"
  by (simp add: numeral_2_eq_2 chroma_up_Suc_iff chroma_answers_def)

text \<open>
  C10. Caller metadata takes precedence over the fields the system sets in a long-term
  record. \<open>LongTermMemory.store\<close> builds \<open>{"user_id": user_id, "created_at": now, **metadata}\<close>:
  the record it adds carries the caller's \<open>user_id\<close> and \<open>created_at\<close> where the metadata has
  these keys, the owner argument and the clock reading otherwise. \<open>store_memory\<close> reaches
  \<open>_sync_to_ltm\<close>, which builds \<open>{"user_id": user_id, **metadata, "created_at": now}\<close>: the
  record it adds carries the caller's \<open>user_id\<close> where the metadata has the key. A record
  whose metadata names owner \<open>b\<close> is attributed to \<open>b\<close>: for every other owner \<open>a\<close>,
  \<open>purge a\<close> keeps it and no search of \<open>a\<close> returns it, while \<open>purge b\<close> deletes it and a
  search of \<open>b\<close> with a limit no smaller than the collection returns it. A \<open>store_memory\<close>
  call in which no owner is found is not refused: it returns an id formed from
  \<open>test_user\<close> and writes a hash whose \<open>user_id\<close> field is \<open>test_user\<close>. The stores are
  taken to answer the calls made, and the id to be new to the collection.
\<close>

theorem caller_metadata_precedence:
  "(u \<noteq> [] \<and> c \<noteq> [] \<and> chroma_answers w \<and> distinct (map fst md) \<and> valid_metadata md
      \<and> (''ltm:'' @ u @ '':'' @ isoformat (now w)) \<notin> fst ` set (collection w)
    \<longrightarrow> (\<exists>m. fst (LongTermMemory_store (PStr u) (PStr c) (PDict md) w)
                = Inr (''ltm:'' @ u @ '':'' @ isoformat (now w))
              \<and> collection (snd (LongTermMemory_store (PStr u) (PStr c) (PDict md) w))
                = collection w @ [(''ltm:'' @ u @ '':'' @ isoformat (now w), c, m)]
              \<and> map_of m ''user_id'' = Some (overriding md ''user_id'' (PStr u))
              \<and> map_of m ''created_at''
                  = Some (overriding md ''created_at''
                            (PStr (isoformat (now (snd (datetime_now w))))))))
   \<and> (unpack_args args kwargs = Inr (PStr c, PDict md, found) \<and> \<not> is_dict found
        \<and> redis_up 2 w
        \<and> \<not> holds_list w (''memory:'' @ new_memory_id (owner_or_default found) (now w))
        \<and> chroma_answers w \<and> distinct (map fst md) \<and> valid_metadata md
        \<and> new_memory_id (owner_or_default found) (now w) \<notin> fst ` set (collection w)
      \<longrightarrow> (\<exists>m. collection (snd (store_memory args kwargs w))
                  = collection w @ [(new_memory_id (owner_or_default found) (now w), c, m)]
                \<and> map_of m ''user_id''
                    = Some (overriding md ''user_id'' (owner_or_default found))))
   \<and> (r \<in> set (collection w) \<and> map_of (snd (snd r)) ''user_id'' = Some (PStr b) \<and> a \<noteq> b
        \<and> (\<forall>x \<in> set (collection w). fst x = fst r \<longrightarrow> x = r) \<and> chroma_up 2 w
      \<longrightarrow> r \<in> set (collection (snd (purge a w)))
          \<and> r \<notin> set (collection (snd (purge b w)))
          \<and> PStr (fst r) \<notin> (\<lambda>x. dict_get x ''id'') ` set (fst (search_memories dist a q limit w))
          \<and> (int (length (collection w)) \<le> limit
              \<longrightarrow> PStr (fst r)
                    \<in> (\<lambda>x. dict_get x ''id'') ` set (fst (search_memories dist b q limit w))))
   \<and> (unpack_args args kwargs = Inr (PStr c, metadata, found)
        \<and> (metadata = PNone \<or> is_dict metadata) \<and> \<not> truthy found \<and> redis_up 2 w
        \<and> \<not> holds_list w (''memory:'' @ new_memory_id (PStr ''test_user'') (now w))
      \<longrightarrow> fst (store_memory args kwargs w) = Inr (new_memory_id (PStr ''test_user'') (now w))
          \<and> (\<exists>h. map_of (redis_db (snd (store_memory args kwargs w)))
                      (''memory:'' @ new_memory_id (PStr ''test_user'') (now w)) = Some (RHash h)
                  \<and> map_of h ''user_id'' = Some (Txt ''test_user'')))"
proof (intro conjI impI)
  assume "u \<noteq> [] \<and> c \<noteq> [] \<and> chroma_answers w \<and> distinct (map fst md) \<and> valid_metadata md
      \<and> (''ltm:'' @ u @ '':'' @ isoformat (now w)) \<notin> fst ` set (collection w)"
  then show "\<exists>m. fst (LongTermMemory_store (PStr u) (PStr c) (PDict md) w)
                = Inr (''ltm:'' @ u @ '':'' @ isoformat (now w))
              \<and> collection (snd (LongTermMemory_store (PStr u) (PStr c) (PDict md) w))
                = collection w @ [(''ltm:'' @ u @ '':'' @ isoformat (now w), c, m)]
              \<and> map_of m ''user_id'' = Some (overriding md ''user_id'' (PStr u))
              \<and> map_of m ''created_at''
                  = Some (overriding md ''created_at''
                            (PStr (isoformat (now (snd (datetime_now w))))))"
    by (intro LongTermMemory_store_ok) simp_all
next
  assume "unpack_args args kwargs = Inr (PStr c, PDict md, found) \<and> \<not> is_dict found
        \<and> redis_up 2 w
        \<and> \<not> holds_list w (''memory:'' @ new_memory_id (owner_or_default found) (now w))
        \<and> chroma_answers w \<and> distinct (map fst md) \<and> valid_metadata md
        \<and> new_memory_id (owner_or_default found) (now w) \<notin> fst ` set (collection w)"
  then have u: "unpack_args args kwargs = Inr (PStr c, PDict md, found)"
    and o: "\<not> is_dict found" and up: "redis_up 2 w"
    and l: "\<not> holds_list w (''memory:'' @ new_memory_id (owner_or_default found) (now w))"
    and ca: "chroma_answers w" and d: "distinct (map fst md)" and v: "valid_metadata md"
    and f: "new_memory_id (owner_or_default found) (now w) \<notin> fst ` set (collection w)"
    by simp_all
  from store_memory_ltm_record [OF u o up l ca d v f]
  show "\<exists>m. collection (snd (store_memory args kwargs w))
                  = collection w @ [(new_memory_id (owner_or_default found) (now w), c, m)]
                \<and> map_of m ''user_id''
                    = Some (overriding md ''user_id'' (owner_or_default found))" .
next
  assume h: "r \<in> set (collection w) \<and> map_of (snd (snd r)) ''user_id'' = Some (PStr b) \<and> a \<noteq> b
        \<and> (\<forall>x \<in> set (collection w). fst x = fst r \<longrightarrow> x = r) \<and> chroma_up 2 w"
  then have r: "r \<in> set (collection w)" and b: "map_of (snd (snd r)) ''user_id'' = Some (PStr b)"
    and ab: "a \<noteq> b" and un: "\<forall>x \<in> set (collection w). fst x = fst r \<longrightarrow> x = r"
    and up: "chroma_up 2 w"
    by simp_all
  from purge_attribution [OF r b ab un up]
  show "r \<in> set (collection (snd (purge a w)))" and "r \<notin> set (collection (snd (purge b w)))"
    by simp_all
  from search_attribution [OF b ab un, of dist q limit]
  show "PStr (fst r) \<notin> (\<lambda>x. dict_get x ''id'') ` set (fst (search_memories dist a q limit w))"
    by auto
  assume "int (length (collection w)) \<le> limit"
  from search_finds [OF r b chroma_up_answers [OF up] this]
  show "PStr (fst r) \<in> (\<lambda>x. dict_get x ''id'') ` set (fst (search_memories dist b q limit w))" .
next
  assume h: "unpack_args args kwargs = Inr (PStr c, metadata, found)
        \<and> (metadata = PNone \<or> is_dict metadata) \<and> \<not> truthy found \<and> redis_up 2 w
        \<and> \<not> holds_list w (''memory:'' @ new_memory_id (PStr ''test_user'') (now w))"
  then have u: "unpack_args args kwargs = Inr (PStr c, metadata, found)"
    and m: "metadata = PNone \<or> is_dict metadata" and t: "\<not> truthy found"
    and up: "redis_up 2 w"
    and l: "\<not> holds_list w (''memory:'' @ new_memory_id (PStr ''test_user'') (now w))"
    by simp_all
  note d = store_memory_default_owner [OF u m t up l]
  from d show "fst (store_memory args kwargs w) = Inr (new_memory_id (PStr ''test_user'') (now w))"
    by simp
  from d show "\<exists>h. map_of (redis_db (snd (store_memory args kwargs w)))
                      (''memory:'' @ new_memory_id (PStr ''test_user'') (now w)) = Some (RHash h)
                  \<and> map_of h ''user_id'' = Some (Txt ''test_user'')"
    by simp
qed

theorem caller_metadata_precedence_witness:
  "(\<exists>m. collection (snd (LongTermMemory_store (PStr ''alice'') (PStr ''hi'')
                            (PDict [(''user_id'', PStr ''bob''),
                                    (''created_at'', PStr ''1999-12-31T00:00:00'')]) empty_world))
            = [(''ltm:alice:2024-01-02T03:04:05.000006'', ''hi'', m)]
        \<and> map_of m ''user_id'' = Some (PStr ''bob'')
        \<and> map_of m ''created_at'' = Some (PStr ''1999-12-31T00:00:00''))
   \<and> (\<exists>m. collection misfiled_world = [(''alice_2024-01-02T03:04:05.000006'', ''hi'', m)]
        \<and> map_of m ''user_id'' = Some (PStr ''bob'')
        \<and> (''alice_2024-01-02T03:04:05.000006'', ''hi'', m)
              \<in> set (collection (snd (purge ''alice'' misfiled_world)))
        \<and> (''alice_2024-01-02T03:04:05.000006'', ''hi'', m)
              \<notin> set (collection (snd (purge ''bob'' misfiled_world)))
        \<and> PStr ''alice_2024-01-02T03:04:05.000006''
              \<notin> (\<lambda>x. dict_get x ''id'')
                    ` set (fst (search_memories (\<lambda>x y. 0) ''alice'' ''hi'' 5 misfiled_world))
        \<and> PStr ''alice_2024-01-02T03:04:05.000006''
              \<in> (\<lambda>x. dict_get x ''id'')
                    ` set (fst (search_memories (\<lambda>x y. 0) ''bob'' ''hi'' 5 misfiled_world)))
   \<and> fst (store_memory [] [(''content'', PStr ''hi'')] empty_world)
        = Inr ''test_user_2024-01-02T03:04:05.000006''"
proof -
  let ?md = "[(''user_id'', PStr ''bob''), (''created_at'', PStr ''1999-12-31T00:00:00'')]"
  let ?id = "''alice_2024-01-02T03:04:05.000006''"
  have e: "now empty_world = t0" "collection empty_world = []" "chroma_answers empty_world"
    "redis_up 2 empty_world" "chroma_faults empty_world = []" "\<And>k. \<not> holds_list empty_world k"
    by (simp_all add: empty_world_def chroma_answers_def chroma_begin_def redis_up_def holds_list_def)
  have n: "new_memory_id (PStr ''alice'') t0 = ?id"
    "new_memory_id (PStr ''test_user'') t0 = ''test_user_2024-01-02T03:04:05.000006''"
    by (simp_all add: new_memory_id_def py_str_def isoformat_t0)
  have "\<exists>m. fst (LongTermMemory_store (PStr ''alice'') (PStr ''hi'') (PDict ?md) empty_world)
                = Inr (''ltm:'' @ ''alice'' @ '':'' @ isoformat (now empty_world))
              \<and> collection (snd (LongTermMemory_store (PStr ''alice'') (PStr ''hi'') (PDict ?md) empty_world))
                = collection empty_world @ [(''ltm:'' @ ''alice'' @ '':'' @ isoformat (now empty_world), ''hi'', m)]
              \<and> map_of m ''user_id'' = Some (overriding ?md ''user_id'' (PStr ''alice''))
              \<and> map_of m ''created_at''
                  = Some (overriding ?md ''created_at''
                            (PStr (isoformat (now (snd (datetime_now empty_world))))))"
    by (rule caller_metadata_precedence [where u = "''alice''" and c = "''hi''" and md = ?md
          and w = empty_world, THEN conjunct1, rule_format])
       (simp add: e valid_metadata_def)
  then have p1: "\<exists>m. collection (snd (LongTermMemory_store (PStr ''alice'') (PStr ''hi'') (PDict ?md) empty_world))
            = [(''ltm:alice:2024-01-02T03:04:05.000006'', ''hi'', m)]
        \<and> map_of m ''user_id'' = Some (PStr ''bob'')
        \<and> map_of m ''created_at'' = Some (PStr ''1999-12-31T00:00:00'')"
    by (simp add: e isoformat_t0 overriding_def)
  have u: "unpack_args [] misfiled_call
            = Inr (PStr ''hi'', PDict [(''user_id'', PStr ''bob'')], PStr ''alice'')"
    unfolding misfiled_call_def
    by (simp add: owner_from_def dict_get_def dict_get_default_def)
  have o: "owner_or_default (PStr ''alice'') = PStr ''alice''"
    by (simp add: owner_or_default_def)
  have "\<exists>m. collection (snd (store_memory [] misfiled_call empty_world))
                  = collection empty_world
                    @ [(new_memory_id (owner_or_default (PStr ''alice'')) (now empty_world), ''hi'', m)]
                \<and> map_of m ''user_id''
                    = Some (overriding [(''user_id'', PStr ''bob'')] ''user_id''
                              (owner_or_default (PStr ''alice'')))"
    by (rule caller_metadata_precedence [where args = "[]" and kwargs = misfiled_call
          and c = "''hi''" and md = "[(''user_id'', PStr ''bob'')]" and found = "PStr ''alice''"
          and w = empty_world, THEN conjunct2, THEN conjunct1, rule_format])
       (intro conjI, rule u, simp_all add: e is_dict_def valid_metadata_def)
  then obtain m where m: "collection misfiled_world = [(?id, ''hi'', m)]"
    "map_of m ''user_id'' = Some (PStr ''bob'')"
    by (auto simp: e o n overriding_def misfiled_world_def)
  have "chroma_faults misfiled_world = tl (chroma_faults empty_world)"
    unfolding misfiled_world_def
    by (rule store_memory_ltm_faults [OF u]) (simp_all add: e is_dict_def)
  then have up: "chroma_up 2 misfiled_world"
    by (simp add: e chroma_up_def)
  have "(?id, ''hi'', m) \<in> set (collection (snd (purge ''alice'' misfiled_world)))
          \<and> (?id, ''hi'', m) \<notin> set (collection (snd (purge ''bob'' misfiled_world)))
          \<and> PStr (fst (?id, ''hi'', m))
              \<notin> (\<lambda>x. dict_get x ''id'')
                    ` set (fst (search_memories (\<lambda>x y. 0) ''alice'' ''hi'' 5 misfiled_world))
          \<and> (int (length (collection misfiled_world)) \<le> 5
              \<longrightarrow> PStr (fst (?id, ''hi'', m))
                    \<in> (\<lambda>x. dict_get x ''id'')
                        ` set (fst (search_memories (\<lambda>x y. 0) ''bob'' ''hi'' 5 misfiled_world)))"
    by (rule caller_metadata_precedence [where r = "(?id, ''hi'', m)" and a = "''alice''"
          and b = "''bob''" and w = misfiled_world and dist = "\<lambda>x y. 0" and q = "''hi''"
          and limit = 5, THEN conjunct2, THEN conjunct2, THEN conjunct1, rule_format])
       (simp add: m up)
  with m have p2: "\<exists>m. collection misfiled_world = [(?id, ''hi'', m)]
        \<and> map_of m ''user_id'' = Some (PStr ''bob'')
        \<and> (?id, ''hi'', m) \<in> set (collection (snd (purge ''alice'' misfiled_world)))
        \<and> (?id, ''hi'', m) \<notin> set (collection (snd (purge ''bob'' misfiled_world)))
        \<and> PStr ?id
              \<notin> (\<lambda>x. dict_get x ''id'')
                    ` set (fst (search_memories (\<lambda>x y. 0) ''alice'' ''hi'' 5 misfiled_world))
        \<and> PStr ?id
              \<in> (\<lambda>x. dict_get x ''id'')
                    ` set (fst (search_memories (\<lambda>x y. 0) ''bob'' ''hi'' 5 misfiled_world))"
    by simp
  have u3: "unpack_args [] [(''content'', PStr ''hi'')] = Inr (PStr ''hi'', PDict [], PNone)"
    by (simp add: owner_from_def dict_get_def dict_get_default_def)
  have "fst (store_memory [] [(''content'', PStr ''hi'')] empty_world)
          = Inr (new_memory_id (PStr ''test_user'') (now empty_world))
          \<and> (\<exists>h. map_of (redis_db (snd (store_memory [] [(''content'', PStr ''hi'')] empty_world)))
                      (''memory:'' @ new_memory_id (PStr ''test_user'') (now empty_world)) = Some (RHash h)
                  \<and> map_of h ''user_id'' = Some (Txt ''test_user''))"
    by (rule caller_metadata_precedence [where args = "[]" and kwargs = "[(''content'', PStr ''hi'')]"
          and c = "''hi''" and metadata = "PDict []" and found = PNone and w = empty_world,
          THEN conjunct2, THEN conjunct2, THEN conjunct2, rule_format])
       (intro conjI, rule u3, simp_all add: e is_dict_def)
  then have p3: "fst (store_memory [] [(''content'', PStr ''hi'')] empty_world)
        = Inr ''test_user_2024-01-02T03:04:05.000006''"
    by (simp add: e n)
  from p1 p2 p3 show ?thesis by blast
qed

section \<open>The context string\<close>

lemma isoformat_later: "isoformat later = ''2024-01-02T03:04:05.000007''"
  by (simp add: isoformat_def pad2_def pad4_def pad6_def digit_chars later_def)

lemma two_message_world_redis:
  "redis_db two_message_world =
     [(''memory:u1_2024-01-02T03:04:05.000006'',
       RHash [(''user_id'', Txt ''u1''), (''content'', Txt ''First message about AI''),
              (''metadata'', Json (PDict [])),
              (''created_at'', Txt ''2024-01-02T03:04:05.000006'')]),
      (''memory:u1_2024-01-02T03:04:05.000007'',
       RHash [(''user_id'', Txt ''u1''), (''content'', Txt ''Second message about ML''),
              (''metadata'', Json (PDict [])),
              (''created_at'', Txt ''2024-01-02T03:04:05.000007'')])]"
  by (simp add: two_message_world_def ticking_world_def store_memory_def owner_from_def dict_get_def
        dict_get_default_def is_dict_def
        empty_world_def datetime_now_def hset_def redis_begin_def encode_def expire_def
        py_str_def py_or_def isoformat_t0 isoformat_later Let_def sync_to_ltm_def chroma_add_def
        chroma_begin_def valid_metadata_def alist_merge_def logger_def)

lemma map_of_bytes_keys:
  "map_of (map (\<lambda>fv. (PyBytes (f fv), g fv)) h) (PyStr x) = None"
  by (induction h) simp_all

lemma hgetall_bytes:
  assumes "\<not> decode_responses w" "fst (hgetall k w) = Inr m"
  shows "\<not> owner_matches m user_id"
  using assms
  by (auto simp: hgetall_eq owner_matches_def as_reply_def map_of_bytes_keys
           split: if_splits option.splits rentry.splits)

lemma hgetall_keeps_decode: "decode_responses (snd (hgetall k w)) = decode_responses w"
  by (simp add: hgetall_eq split: option.splits rentry.splits)

lemma collect_recent_bytes:
  "\<not> decode_responses w \<Longrightarrow> fst (collect_recent user_id keys acc w) = acc"
proof (induction keys arbitrary: acc w)
  case Nil
  then show ?case by simp
next
  case (Cons key rest)
  obtain res w1 where h: "hgetall (key_text key) w = (res, w1)"
    by (cases "hgetall (key_text key) w")
  with hgetall_keeps_decode [of "key_text key" w] Cons.prems have d: "\<not> decode_responses w1"
    by simp
  show ?case
  proof (cases res)
    case (Inl e)
    with h show ?thesis by simp
  next
    case (Inr memory)
    with h hgetall_bytes [OF Cons.prems, of "key_text key" memory user_id]
    have "\<not> owner_matches memory user_id" by simp
    with h Inr Cons.IH [OF d] show ?thesis by simp
  qed
qed

text \<open>
  C7. \<open>retrieve_context\<close> reads each hash of \<open>keys("memory:*")[-limit:]\<close> and keeps it when
  \<open>memory.get("user_id") == user_id\<close>. The client \<open>redis.from_url(redis_url)\<close> of
  \<open>MemoryManager\<close> answers with bytes, and the \<open>str\<close> key \<open>"user_id"\<close> is no key of such a
  reply: with that client no hash is kept and the context is the empty string, for every
  owner, every limit and every content of the store.
\<close>

theorem retrieve_context_bytes_client:
  "\<not> decode_responses w \<Longrightarrow> fst (retrieve_context user_id limit w) = Inr []"
proof -
  assume d: "\<not> decode_responses w"
  obtain res w1 where k: "keys_prefix ''memory:'' w = (res, w1)"
    by (cases "keys_prefix ''memory:'' w")
  have "decode_responses (snd (keys_prefix ''memory:'' w)) = decode_responses w"
    by (simp add: keys_prefix_def case_prod_unfold split: bool.splits)
  with k d have d1: "\<not> decode_responses w1" by simp
  show ?thesis
  proof (cases res)
    case (Inl e)
    with k show ?thesis
      by (simp add: retrieve_context_def sorted_reverse_def intercalate_def)
  next
    case (Inr keys)
    from collect_recent_bytes [OF d1, of user_id "slice_last keys limit" "[]"]
    obtain w2 where "collect_recent user_id (slice_last keys limit) [] w1 = ([], w2)"
      by (cases "collect_recent user_id (slice_last keys limit) [] w1") simp
    with k Inr show ?thesis
      by (simp add: retrieve_context_def sorted_reverse_def intercalate_def)
  qed
qed

theorem retrieve_context_bytes_client_witness:
  "redis_db two_message_world =
     [(''memory:u1_2024-01-02T03:04:05.000006'',
       RHash [(''user_id'', Txt ''u1''), (''content'', Txt ''First message about AI''),
              (''metadata'', Json (PDict [])),
              (''created_at'', Txt ''2024-01-02T03:04:05.000006'')]),
      (''memory:u1_2024-01-02T03:04:05.000007'',
       RHash [(''user_id'', Txt ''u1''), (''content'', Txt ''Second message about ML''),
              (''metadata'', Json (PDict [])),
              (''created_at'', Txt ''2024-01-02T03:04:05.000007'')])]
   \<and> \<not> decode_responses two_message_world
   \<and> fst (retrieve_context ''u1'' 10 two_message_world) = Inr []"
proof -
  have d: "\<not> decode_responses two_message_world"
    by (simp add: two_message_world_def ticking_world_def store_memory_def owner_from_def dict_get_def
        dict_get_default_def is_dict_def
        empty_world_def datetime_now_def hset_def redis_begin_def encode_def expire_def
        py_str_def py_or_def isoformat_t0 isoformat_later Let_def sync_to_ltm_def chroma_add_def
        chroma_begin_def valid_metadata_def alist_merge_def logger_def)
  from retrieve_context_bytes_client [OF d, of "''u1''" 10] d two_message_world_redis
  show ?thesis by simp
qed

section \<open>The chat context\<close>

lemma isoformat_latest: "isoformat latest = ''2024-01-02T03:04:05.000008''"
  by (simp add: isoformat_def pad2_def pad4_def pad6_def digit_chars latest_def)

lemma three_message_world_collection:
  "collection three_message_world =
     [(''u1_2024-01-02T03:04:05.000006'', ''First message about AI'',
       [(''user_id'', PStr ''u1''), (''created_at'', PStr ''2024-01-02T03:04:05.000006'')]),
      (''u1_2024-01-02T03:04:05.000007'', ''Second message about ML'',
       [(''user_id'', PStr ''u1''), (''created_at'', PStr ''2024-01-02T03:04:05.000007'')]),
      (''u1_2024-01-02T03:04:05.000008'', ''Third message about DL'',
       [(''user_id'', PStr ''u1''), (''created_at'', PStr ''2024-01-02T03:04:05.000008'')])]"
  by (simp add: three_message_world_def two_message_world_def ticking_world_def store_memory_def
        owner_from_def dict_get_def dict_get_default_def is_dict_def
        empty_world_def datetime_now_def hset_def redis_begin_def encode_def expire_def
        py_str_def py_or_def isoformat_t0 isoformat_later isoformat_latest Let_def sync_to_ltm_def
        chroma_add_def chroma_begin_def valid_metadata_def alist_merge_def logger_def)

lemma three_message_world_faults: "chroma_faults three_message_world = []"
  by (simp add: three_message_world_def two_message_world_def ticking_world_def store_memory_def
        owner_from_def dict_get_def dict_get_default_def is_dict_def
        empty_world_def datetime_now_def hset_def redis_begin_def encode_def expire_def
        py_str_def py_or_def isoformat_t0 isoformat_later isoformat_latest Let_def sync_to_ltm_def
        chroma_add_def chroma_begin_def valid_metadata_def alist_merge_def logger_def)

lemma fromisoformat_readings:
  "fromisoformat ''2024-01-02T03:04:05.000006'' = Some t0"
  "fromisoformat ''2024-01-02T03:04:05.000007'' = Some later"
  "fromisoformat ''2024-01-02T03:04:05.000008'' = Some latest"
proof -
  have "valid_datetime t0" "valid_datetime later" "valid_datetime latest"
    by (simp_all add: valid_datetime_def t0_def later_def latest_def days_in_month_def)
  from this [THEN fromisoformat_isoformat]
  show "fromisoformat ''2024-01-02T03:04:05.000006'' = Some t0"
    "fromisoformat ''2024-01-02T03:04:05.000007'' = Some later"
    "fromisoformat ''2024-01-02T03:04:05.000008'' = Some latest"
    by (simp_all only: isoformat_t0 isoformat_later isoformat_latest)
qed

lemma dt_key_readings:
  "dt_key t0 \<le> dt_key later" "dt_key later \<le> dt_key latest" "dt_key t0 \<le> dt_key latest"
  "\<not> dt_key later \<le> dt_key t0" "\<not> dt_key latest \<le> dt_key later"
  "\<not> dt_key latest \<le> dt_key t0"
  by (simp_all add: dt_key_def t0_def later_def latest_def)

text \<open>
  C8. \<open>get_chat_context\<close> asks the collection for the first \<open>limit * 2\<close> records of the
  owner, and sorts by \<open>created_at\<close> only what it was given. After owner \<open>u1\<close> has stored three
  messages, \<open>get_chat_context("u1", 1)\<close> is given the two oldest records and returns the
  second message; the newest record of the owner, the third message, is not read.
\<close>

theorem get_chat_context_misses_newest:
  "map (\<lambda>r. (fst (snd r), map_of (snd (snd r)) ''user_id'', map_of (snd (snd r)) ''created_at''))
       (collection three_message_world)
     = [(''First message about AI'', Some (PStr ''u1''), Some (PStr ''2024-01-02T03:04:05.000006'')),
        (''Second message about ML'', Some (PStr ''u1''), Some (PStr ''2024-01-02T03:04:05.000007'')),
        (''Third message about DL'', Some (PStr ''u1''), Some (PStr ''2024-01-02T03:04:05.000008''))]
   \<and> fst (get_chat_context ''u1'' 1 three_message_world) = [''Second message about ML'']
   \<and> fst (get_chat_context ''u1'' 2 three_message_world)
       = [''Third message about DL'', ''Second message about ML'']"
proof -
  have a: "fst (get_chat_context ''u1'' 1 three_message_world) = [''Second message about ML'']"
    by (simp add: get_chat_context_def chroma_get_where_def chroma_begin_def
          three_message_world_faults three_message_world_collection where_eq_def
          fromisoformat_readings sorted_reverse_def slice_first_def dt_key_readings)
  have b: "fst (get_chat_context ''u1'' 2 three_message_world)
       = [''Third message about DL'', ''Second message about ML'']"
    by (simp add: get_chat_context_def chroma_get_where_def chroma_begin_def
          three_message_world_faults three_message_world_collection where_eq_def
          fromisoformat_readings sorted_reverse_def slice_first_def dt_key_readings)
  show ?thesis
    by (simp add: a b) (simp add: three_message_world_collection)
qed

end
